theory Spec2Isabelle
  imports Main "HOL-Library.Sublist"
begin

section \<open>The NVML binding layer of \<^verbatim>\<open>dali/util/nvml_wrap.cc\<close>\<close>

text \<open>
  The file keeps one global flag (\<^verbatim>\<open>symbolsLoaded\<close>), one static library handle and
  fifteen static function pointers.  \<^verbatim>\<open>wrapSymbols\<close> fills the pointers from the shared
  library through \<^verbatim>\<open>dlopen\<close>/\<^verbatim>\<open>dlsym\<close>; fourteen wrappers forward a call through their
  pointer (macro \<^verbatim>\<open>FUNC_BODY\<close>) and turn the native return code into a
  \<^verbatim>\<open>DALIError_t\<close>.

  The embedding is state passing.  Everything outside the file (the dynamic linker, the
  CUDA runtime, the code behind a resolved pointer) is a record of functions, \<open>env\<close>, that
  each operation receives; every call into it is appended to a ghost trace, so that
  ``without invoking anything'' is a statement about the trace.
\<close>

subsection \<open>Values\<close>

text \<open>A pointer is its address; \<^verbatim>\<open>NULL\<close> is address 0.\<close>

type_synonym addr = nat

definition NULL :: addr where
  "NULL = 0"

text \<open>
  Modelled from the spec: the type \<^verbatim>\<open>DALIError_t\<close>, declared in a DALI header that is not
  part of the file.  It is the spec's two-valued result code, success or error; the file
  uses its values \<^verbatim>\<open>DALISuccess\<close> and \<^verbatim>\<open>DALIError\<close>.
\<close>

datatype DALIError_t = DALISuccess | DALIError

text \<open>
  Modelled from the spec: the type \<^verbatim>\<open>nvmlReturn_t\<close> and its value \<^verbatim>\<open>NVML_SUCCESS\<close>, declared
  in \<^verbatim>\<open>nvml.h\<close>, which is not part of the file.  They are the spec's native return code and
  its library-defined success sentinel.  A code is a number; no general statement below
  depends on which number the sentinel is, and the stub worlds use NVML's 0.
\<close>

type_synonym nvmlReturn_t = nat

definition NVML_SUCCESS :: nvmlReturn_t where
  "NVML_SUCCESS = 0"

text \<open>
  The static function pointers, lines 29--57, under their own names.  The five of the
  second group are declared only when \<^verbatim>\<open>CUDART_VERSION >= 11000\<close>.
\<close>

datatype funcptr =
    nvmlInternalInit
  | nvmlInternalShutdown
  | nvmlInternalDeviceGetHandleByPciBusId
  | nvmlInternalDeviceGetHandleByIndex
  | nvmlInternalDeviceGetIndex
  | nvmlInternalDeviceSetCpuAffinity
  | nvmlInternalDeviceClearCpuAffinity
  | nvmlInternalSystemGetDriverVersion
  | nvmlInternalDeviceGetCpuAffinity
  | nvmlInternalDeviceGetCpuAffinityWithinScope
  | nvmlInternalDeviceGetBrand
  | nvmlInternalDeviceGetCount_v2
  | nvmlInternalDeviceGetHandleByIndex_v2
  | nvmlInternalDeviceGetCudaComputeCapability
  | nvmlInternalErrorString

text \<open>The preprocessor's \<^verbatim>\<open>#INTERNAL_FUNC\<close>: the name of the pointer as a string.\<close>

fun stringify :: "funcptr \<Rightarrow> string" where
  "stringify nvmlInternalInit = ''nvmlInternalInit''"
| "stringify nvmlInternalShutdown = ''nvmlInternalShutdown''"
| "stringify nvmlInternalDeviceGetHandleByPciBusId = ''nvmlInternalDeviceGetHandleByPciBusId''"
| "stringify nvmlInternalDeviceGetHandleByIndex = ''nvmlInternalDeviceGetHandleByIndex''"
| "stringify nvmlInternalDeviceGetIndex = ''nvmlInternalDeviceGetIndex''"
| "stringify nvmlInternalDeviceSetCpuAffinity = ''nvmlInternalDeviceSetCpuAffinity''"
| "stringify nvmlInternalDeviceClearCpuAffinity = ''nvmlInternalDeviceClearCpuAffinity''"
| "stringify nvmlInternalSystemGetDriverVersion = ''nvmlInternalSystemGetDriverVersion''"
| "stringify nvmlInternalDeviceGetCpuAffinity = ''nvmlInternalDeviceGetCpuAffinity''"
| "stringify nvmlInternalDeviceGetCpuAffinityWithinScope =
     ''nvmlInternalDeviceGetCpuAffinityWithinScope''"
| "stringify nvmlInternalDeviceGetBrand = ''nvmlInternalDeviceGetBrand''"
| "stringify nvmlInternalDeviceGetCount_v2 = ''nvmlInternalDeviceGetCount_v2''"
| "stringify nvmlInternalDeviceGetHandleByIndex_v2 = ''nvmlInternalDeviceGetHandleByIndex_v2''"
| "stringify nvmlInternalDeviceGetCudaComputeCapability =
     ''nvmlInternalDeviceGetCudaComputeCapability''"
| "stringify nvmlInternalErrorString = ''nvmlInternalErrorString''"

subsection \<open>The world outside the file\<close>

text \<open>
  Arguments are forwarded untouched, so a call carries them as a list of raw machine
  values.  A call of the environment is recorded as an event.
\<close>

datatype event =
    Dlopen string
  | Dlsym addr string
  | Dlerror
  | DriverGetVersion
  | NativeCall addr "int list"
  | ErrorStringCall addr nvmlReturn_t
  | Warn string

text \<open>
  \<open>dlopen\<close> and \<open>dlsym\<close> give a handle or an address, \<open>NULL\<close> on failure; \<open>dlerror\<close> gives
  the loader's message for the name whose lookup failed last; \<open>cudaDriverGetVersion\<close>
  gives the CUDA status and the version written to the out-parameter; \<open>native\<close> is the
  return code of the code at an address called with the given arguments; \<open>errstring\<close> is
  the C string returned by the code at an address called with a return code.
\<close>

record env =
  dlopen :: "string \<Rightarrow> addr"
  dlsym :: "addr \<Rightarrow> string \<Rightarrow> addr"
  dlerror :: "string \<Rightarrow> string"
  cudaDriverGetVersion :: "int \<times> int"
  native :: "addr \<Rightarrow> int list \<Rightarrow> nvmlReturn_t"
  errstring :: "addr \<Rightarrow> nvmlReturn_t \<Rightarrow> string"

subsection \<open>The state of the file\<close>

text \<open>
  \<open>symbolsLoaded\<close> is the global of line 27, \<open>nvmlhandle\<close> the static local of line 80,
  \<open>table\<close> the fifteen static pointers.  Statics are zero-initialised.
\<close>

record nvml_state =
  symbolsLoaded :: int
  nvmlhandle :: addr
  table :: "funcptr \<Rightarrow> addr"
  trace :: "event list"

definition initial_state :: nvml_state where
  "initial_state =
     \<lparr>symbolsLoaded = 0, nvmlhandle = NULL, table = (\<lambda>_. NULL), trace = []\<rparr>"

definition emit :: "event \<Rightarrow> nvml_state \<Rightarrow> nvml_state" where
  "emit ev s = s\<lparr>trace := trace s @ [ev]\<rparr>"

text \<open>
  Modelled from the spec: the macros \<^verbatim>\<open>DALI_FAIL\<close>, \<^verbatim>\<open>DALI_WARN\<close> and \<^verbatim>\<open>CUDA_CALL\<close>, defined
  in DALI headers that are not part of the file.  \<^verbatim>\<open>DALI_FAIL\<close> is the spec's hard,
  abort-style failure: the function is left by an exception, which here carries the string
  the macro is given.  \<^verbatim>\<open>DALI_WARN\<close> is the spec's soft warning: the event \<open>Warn\<close> with the
  string the macro is given, after which the function goes on.  \<^verbatim>\<open>CUDA_CALL\<close> leaves by an
  exception when the CUDA status is not 0.

  So a function of the file returns, or leaves by an exception, or calls through a null
  function pointer, which is undefined behaviour and in practice the end of the process.
\<close>

datatype 'a outcome = Returns 'a | Throws string | Crash

subsection \<open>The driver-version predicate, lines 60--64\<close>

text \<open>
  The arguments are the literals of a macro expansion, far from the range of \<^verbatim>\<open>int\<close>, so
  the arithmetic is that of the integers.
\<close>

definition is_driver_sufficient ::
    "env \<Rightarrow> int \<Rightarrow> int \<Rightarrow> nvml_state \<Rightarrow> bool outcome \<times> nvml_state" where
  "is_driver_sufficient e min_cuda_major min_cuda_minor s =
     (let (err, driver_version) = cudaDriverGetVersion e;
          s1 = emit DriverGetVersion s
      in if err \<noteq> 0 then (Throws ''CUDA runtime API error'', s1)
         else (Returns (driver_version \<ge> 1000 * min_cuda_major + 10 * min_cuda_minor), s1))"

subsection \<open>The capability query, lines 67--74\<close>

definition wrapHasCuda11NvmlFunctions :: "nat \<Rightarrow> nvml_state \<Rightarrow> bool" where
  "wrapHasCuda11NvmlFunctions CUDART_VERSION s =
     (if CUDART_VERSION \<ge> 11000 then
        table s nvmlInternalDeviceGetCount_v2 \<noteq> NULL \<and>
        table s nvmlInternalDeviceGetHandleByIndex_v2 \<noteq> NULL \<and>
        table s nvmlInternalDeviceGetCudaComputeCapability \<noteq> NULL \<and>
        table s nvmlInternalDeviceGetBrand \<noteq> NULL
      else False)"

subsection \<open>The loader, lines 76--137\<close>

text \<open>Macro \<^verbatim>\<open>LOAD_SYM\<close>, lines 92--99.\<close>

definition LOAD_SYM ::
    "env \<Rightarrow> addr \<Rightarrow> string \<Rightarrow> funcptr \<Rightarrow> nvml_state \<Rightarrow> unit outcome \<times> nvml_state" where
  "LOAD_SYM e handle symbol fp s =
     (let tmp = dlsym e handle symbol;
          s1 = emit (Dlsym handle symbol) s
      in if tmp = NULL then
           (Throws (''dlsym failed on '' @ symbol @ '' - '' @ dlerror e symbol),
            emit Dlerror s1)
         else (Returns (), s1\<lparr>table := (table s1)(fp := tmp)\<rparr>))"

text \<open>
  Macro \<^verbatim>\<open>LOAD_SYM_MIN_DRIVER\<close>, lines 101--112.  The file defines it and never
  expands it.
\<close>

definition LOAD_SYM_MIN_DRIVER ::
    "env \<Rightarrow> addr \<Rightarrow> string \<Rightarrow> funcptr \<Rightarrow> int \<Rightarrow> int \<Rightarrow> nvml_state
       \<Rightarrow> unit outcome \<times> nvml_state" where
  "LOAD_SYM_MIN_DRIVER e handle symbol fp cuda_M cuda_m s =
     (case is_driver_sufficient e cuda_M cuda_m s of
        (Throws m, s1) \<Rightarrow> (Throws m, s1)
      | (Crash, s1) \<Rightarrow> (Crash, s1)
      | (Returns ok, s1) \<Rightarrow>
          if \<not> ok then (Returns (), s1\<lparr>table := (table s1)(fp := NULL)\<rparr>)
          else
            (let tmp = dlsym e handle symbol;
                 s2 = emit (Dlsym handle symbol) s1
             in if tmp = NULL then
                  (Throws (''dlsym failed on '' @ symbol @ '' - '' @ dlerror e symbol),
                   emit Dlerror s2)
                else (Returns (), s2\<lparr>table := (table s2)(fp := tmp)\<rparr>)))"

text \<open>The expansions of lines 114--123, in order: exported name and pointer.\<close>

definition base_symbols :: "(string \<times> funcptr) list" where
  "base_symbols =
     [(''nvmlInit'', nvmlInternalInit),
      (''nvmlShutdown'', nvmlInternalShutdown),
      (''nvmlDeviceGetHandleByPciBusId'', nvmlInternalDeviceGetHandleByPciBusId),
      (''nvmlDeviceGetHandleByIndex'', nvmlInternalDeviceGetHandleByIndex),
      (''nvmlDeviceGetIndex'', nvmlInternalDeviceGetIndex),
      (''nvmlDeviceSetCpuAffinity'', nvmlInternalDeviceSetCpuAffinity),
      (''nvmlDeviceClearCpuAffinity'', nvmlInternalDeviceClearCpuAffinity),
      (''nvmlSystemGetDriverVersion'', nvmlInternalSystemGetDriverVersion),
      (''nvmlDeviceGetCpuAffinity'', nvmlInternalDeviceGetCpuAffinity),
      (''nvmlErrorString'', nvmlInternalErrorString)]"

text \<open>The expansions of lines 126--132, compiled when \<^verbatim>\<open>CUDART_VERSION >= 11000\<close>.\<close>

definition cuda11_symbols :: "(string \<times> funcptr) list" where
  "cuda11_symbols =
     [(''nvmlDeviceGetCpuAffinityWithinScope'', nvmlInternalDeviceGetCpuAffinityWithinScope),
      (''nvmlDeviceGetBrand'', nvmlInternalDeviceGetBrand),
      (''nvmlDeviceGetCount_v2'', nvmlInternalDeviceGetCount_v2),
      (''nvmlDeviceGetHandleByIndex_v2'', nvmlInternalDeviceGetHandleByIndex_v2),
      (''nvmlDeviceGetCudaComputeCapability'', nvmlInternalDeviceGetCudaComputeCapability)]"

definition symbols_to_load :: "nat \<Rightarrow> (string \<times> funcptr) list" where
  "symbols_to_load CUDART_VERSION =
     base_symbols @ (if CUDART_VERSION \<ge> 11000 then cuda11_symbols else [])"

text \<open>
  A run of \<^verbatim>\<open>LOAD_SYM\<close> expansions one after the other: the first that throws ends the
  function, and nothing undoes the assignments made before it.
\<close>

fun load_symbols ::
    "env \<Rightarrow> addr \<Rightarrow> (string \<times> funcptr) list \<Rightarrow> nvml_state \<Rightarrow> unit outcome \<times> nvml_state" where
  "load_symbols e handle [] s = (Returns (), s)"
| "load_symbols e handle ((symbol, fp) # rest) s =
     (case LOAD_SYM e handle symbol fp s of
        (Returns _, s1) \<Rightarrow> load_symbols e handle rest s1
      | (Throws m, s1) \<Rightarrow> (Throws m, s1)
      | (Crash, s1) \<Rightarrow> (Crash, s1))"

text \<open>
  Lines 114--136, the part of \<^verbatim>\<open>wrapSymbols\<close> after the library is open: the expansions for
  this build, then the flag.
\<close>

definition resolve_all ::
    "nat \<Rightarrow> env \<Rightarrow> nvml_state \<Rightarrow> DALIError_t outcome \<times> nvml_state" where
  "resolve_all CUDART_VERSION e s =
     (case load_symbols e (nvmlhandle s) (symbols_to_load CUDART_VERSION) s of
        (Returns _, s1) \<Rightarrow> (Returns DALISuccess, s1\<lparr>symbolsLoaded := 1\<rparr>)
      | (Throws m, s1) \<Rightarrow> (Throws m, s1)
      | (Crash, s1) \<Rightarrow> (Crash, s1))"

definition wrapSymbols ::
    "nat \<Rightarrow> env \<Rightarrow> nvml_state \<Rightarrow> DALIError_t outcome \<times> nvml_state" where
  "wrapSymbols CUDART_VERSION e s =
     (if symbolsLoaded s \<noteq> 0 then (Returns DALISuccess, s)
      else
        (let s1 = (emit (Dlopen ''libnvidia-ml.so'') s)
                    \<lparr>nvmlhandle := dlopen e ''libnvidia-ml.so''\<rparr>
         in if nvmlhandle s1 = NULL then
              (let s2 = (emit (Dlopen ''libnvidia-ml.so.1'') s1)
                          \<lparr>nvmlhandle := dlopen e ''libnvidia-ml.so.1''\<rparr>
               in if nvmlhandle s2 = NULL then
                    (Throws ''Failed to open libnvidia-ml.so[.1]'', s2)
                  else resolve_all CUDART_VERSION e s2)
            else resolve_all CUDART_VERSION e s1))"

subsection \<open>The call shim, lines 140--218\<close>

text \<open>
  Macro \<^verbatim>\<open>FUNC_BODY\<close>, lines 140--152.  The failure branch calls
  \<^verbatim>\<open>nvmlInternalErrorString(ret)\<close> with no test of that pointer.
\<close>

definition FUNC_BODY ::
    "env \<Rightarrow> funcptr \<Rightarrow> int list \<Rightarrow> nvml_state \<Rightarrow> DALIError_t outcome \<times> nvml_state" where
  "FUNC_BODY e INTERNAL_FUNC ARGS s =
     (if table s INTERNAL_FUNC = NULL then (Returns DALIError, s)
      else
        (let ret = native e (table s INTERNAL_FUNC) ARGS;
             s1 = emit (NativeCall (table s INTERNAL_FUNC) ARGS) s
         in if ret \<noteq> NVML_SUCCESS then
              (if table s1 nvmlInternalErrorString = NULL then (Crash, s1)
               else
                 (let str = errstring e (table s1 nvmlInternalErrorString) ret;
                      s2 = emit (ErrorStringCall (table s1 nvmlInternalErrorString) ret) s1
                  in (Returns DALIError,
                      emit (Warn (stringify INTERNAL_FUNC @ ''(...) failed: '' @ str)) s2)))
            else (Returns DALISuccess, s1)))"

text \<open>The wrappers, lines 155--216; the last five exist when \<^verbatim>\<open>CUDART_VERSION >= 11000\<close>.\<close>

definition wrapNvmlInit :: "env \<Rightarrow> nvml_state \<Rightarrow> DALIError_t outcome \<times> nvml_state" where
  "wrapNvmlInit e s = FUNC_BODY e nvmlInternalInit [] s"

definition wrapNvmlShutdown :: "env \<Rightarrow> nvml_state \<Rightarrow> DALIError_t outcome \<times> nvml_state" where
  "wrapNvmlShutdown e s = FUNC_BODY e nvmlInternalShutdown [] s"

definition wrapNvmlDeviceGetHandleByPciBusId ::
    "env \<Rightarrow> int \<Rightarrow> int \<Rightarrow> nvml_state \<Rightarrow> DALIError_t outcome \<times> nvml_state" where
  "wrapNvmlDeviceGetHandleByPciBusId e pciBusId device s =
     FUNC_BODY e nvmlInternalDeviceGetHandleByPciBusId [pciBusId, device] s"

definition wrapNvmlDeviceGetHandleByIndex ::
    "env \<Rightarrow> int \<Rightarrow> int \<Rightarrow> nvml_state \<Rightarrow> DALIError_t outcome \<times> nvml_state" where
  "wrapNvmlDeviceGetHandleByIndex e device_id device s =
     FUNC_BODY e nvmlInternalDeviceGetHandleByIndex [device_id, device] s"

definition wrapNvmlDeviceGetIndex ::
    "env \<Rightarrow> int \<Rightarrow> int \<Rightarrow> nvml_state \<Rightarrow> DALIError_t outcome \<times> nvml_state" where
  "wrapNvmlDeviceGetIndex e device index s =
     FUNC_BODY e nvmlInternalDeviceGetIndex [device, index] s"

definition wrapNvmlDeviceSetCpuAffinity ::
    "env \<Rightarrow> int \<Rightarrow> nvml_state \<Rightarrow> DALIError_t outcome \<times> nvml_state" where
  "wrapNvmlDeviceSetCpuAffinity e device s =
     FUNC_BODY e nvmlInternalDeviceSetCpuAffinity [device] s"

definition wrapNvmlDeviceClearCpuAffinity ::
    "env \<Rightarrow> int \<Rightarrow> nvml_state \<Rightarrow> DALIError_t outcome \<times> nvml_state" where
  "wrapNvmlDeviceClearCpuAffinity e device s =
     FUNC_BODY e nvmlInternalDeviceClearCpuAffinity [device] s"

definition wrapNvmlSystemGetDriverVersion ::
    "env \<Rightarrow> int \<Rightarrow> int \<Rightarrow> nvml_state \<Rightarrow> DALIError_t outcome \<times> nvml_state" where
  "wrapNvmlSystemGetDriverVersion e name len s =
     FUNC_BODY e nvmlInternalSystemGetDriverVersion [name, len] s"

definition wrapNvmlDeviceGetCpuAffinity ::
    "env \<Rightarrow> int \<Rightarrow> int \<Rightarrow> int \<Rightarrow> nvml_state \<Rightarrow> DALIError_t outcome \<times> nvml_state" where
  "wrapNvmlDeviceGetCpuAffinity e device cpuSetSize cpuSet s =
     FUNC_BODY e nvmlInternalDeviceGetCpuAffinity [device, cpuSetSize, cpuSet] s"

definition wrapNvmlDeviceGetCpuAffinityWithinScope ::
    "env \<Rightarrow> int \<Rightarrow> int \<Rightarrow> int \<Rightarrow> int \<Rightarrow> nvml_state \<Rightarrow> DALIError_t outcome \<times> nvml_state" where
  "wrapNvmlDeviceGetCpuAffinityWithinScope e device nodeSetSize nodeSet scope s =
     FUNC_BODY e nvmlInternalDeviceGetCpuAffinityWithinScope
       [device, nodeSetSize, nodeSet, scope] s"

definition wrapNvmlDeviceGetBrand ::
    "env \<Rightarrow> int \<Rightarrow> int \<Rightarrow> nvml_state \<Rightarrow> DALIError_t outcome \<times> nvml_state" where
  "wrapNvmlDeviceGetBrand e device type s =
     FUNC_BODY e nvmlInternalDeviceGetBrand [device, type] s"

definition wrapNvmlDeviceGetCount_v2 ::
    "env \<Rightarrow> int \<Rightarrow> nvml_state \<Rightarrow> DALIError_t outcome \<times> nvml_state" where
  "wrapNvmlDeviceGetCount_v2 e deviceCount s =
     FUNC_BODY e nvmlInternalDeviceGetCount_v2 [deviceCount] s"

definition wrapNvmlDeviceGetHandleByIndex_v2 ::
    "env \<Rightarrow> int \<Rightarrow> int \<Rightarrow> nvml_state \<Rightarrow> DALIError_t outcome \<times> nvml_state" where
  "wrapNvmlDeviceGetHandleByIndex_v2 e index device s =
     FUNC_BODY e nvmlInternalDeviceGetHandleByIndex_v2 [index, device] s"

definition wrapNvmlDeviceGetCudaComputeCapability ::
    "env \<Rightarrow> int \<Rightarrow> int \<Rightarrow> int \<Rightarrow> nvml_state \<Rightarrow> DALIError_t outcome \<times> nvml_state" where
  "wrapNvmlDeviceGetCudaComputeCapability e device major minor s =
     FUNC_BODY e nvmlInternalDeviceGetCudaComputeCapability [device, major, minor] s"

subsection \<open>Calls of the wrappers as data\<close>

text \<open>
  One constructor for each wrapper with its arguments, so that a statement can range over
  every wrapper: \<open>entry\<close> is the pointer the wrapper hands to \<^verbatim>\<open>FUNC_BODY\<close>, \<open>arguments\<close>
  the list it forwards, \<open>invoke\<close> the wrapper itself.
\<close>

datatype wrapper =
    NvmlInit
  | NvmlShutdown
  | NvmlDeviceGetHandleByPciBusId int int
  | NvmlDeviceGetHandleByIndex int int
  | NvmlDeviceGetIndex int int
  | NvmlDeviceSetCpuAffinity int
  | NvmlDeviceClearCpuAffinity int
  | NvmlSystemGetDriverVersion int int
  | NvmlDeviceGetCpuAffinity int int int
  | NvmlDeviceGetCpuAffinityWithinScope int int int int
  | NvmlDeviceGetBrand int int
  | NvmlDeviceGetCount_v2 int
  | NvmlDeviceGetHandleByIndex_v2 int int
  | NvmlDeviceGetCudaComputeCapability int int int

fun invoke :: "env \<Rightarrow> wrapper \<Rightarrow> nvml_state \<Rightarrow> DALIError_t outcome \<times> nvml_state" where
  "invoke e NvmlInit s = wrapNvmlInit e s"
| "invoke e NvmlShutdown s = wrapNvmlShutdown e s"
| "invoke e (NvmlDeviceGetHandleByPciBusId a b) s = wrapNvmlDeviceGetHandleByPciBusId e a b s"
| "invoke e (NvmlDeviceGetHandleByIndex a b) s = wrapNvmlDeviceGetHandleByIndex e a b s"
| "invoke e (NvmlDeviceGetIndex a b) s = wrapNvmlDeviceGetIndex e a b s"
| "invoke e (NvmlDeviceSetCpuAffinity a) s = wrapNvmlDeviceSetCpuAffinity e a s"
| "invoke e (NvmlDeviceClearCpuAffinity a) s = wrapNvmlDeviceClearCpuAffinity e a s"
| "invoke e (NvmlSystemGetDriverVersion a b) s = wrapNvmlSystemGetDriverVersion e a b s"
| "invoke e (NvmlDeviceGetCpuAffinity a b c) s = wrapNvmlDeviceGetCpuAffinity e a b c s"
| "invoke e (NvmlDeviceGetCpuAffinityWithinScope a b c d) s =
     wrapNvmlDeviceGetCpuAffinityWithinScope e a b c d s"
| "invoke e (NvmlDeviceGetBrand a b) s = wrapNvmlDeviceGetBrand e a b s"
| "invoke e (NvmlDeviceGetCount_v2 a) s = wrapNvmlDeviceGetCount_v2 e a s"
| "invoke e (NvmlDeviceGetHandleByIndex_v2 a b) s = wrapNvmlDeviceGetHandleByIndex_v2 e a b s"
| "invoke e (NvmlDeviceGetCudaComputeCapability a b c) s =
     wrapNvmlDeviceGetCudaComputeCapability e a b c s"

fun entry :: "wrapper \<Rightarrow> funcptr" where
  "entry NvmlInit = nvmlInternalInit"
| "entry NvmlShutdown = nvmlInternalShutdown"
| "entry (NvmlDeviceGetHandleByPciBusId a b) = nvmlInternalDeviceGetHandleByPciBusId"
| "entry (NvmlDeviceGetHandleByIndex a b) = nvmlInternalDeviceGetHandleByIndex"
| "entry (NvmlDeviceGetIndex a b) = nvmlInternalDeviceGetIndex"
| "entry (NvmlDeviceSetCpuAffinity a) = nvmlInternalDeviceSetCpuAffinity"
| "entry (NvmlDeviceClearCpuAffinity a) = nvmlInternalDeviceClearCpuAffinity"
| "entry (NvmlSystemGetDriverVersion a b) = nvmlInternalSystemGetDriverVersion"
| "entry (NvmlDeviceGetCpuAffinity a b c) = nvmlInternalDeviceGetCpuAffinity"
| "entry (NvmlDeviceGetCpuAffinityWithinScope a b c d) =
     nvmlInternalDeviceGetCpuAffinityWithinScope"
| "entry (NvmlDeviceGetBrand a b) = nvmlInternalDeviceGetBrand"
| "entry (NvmlDeviceGetCount_v2 a) = nvmlInternalDeviceGetCount_v2"
| "entry (NvmlDeviceGetHandleByIndex_v2 a b) = nvmlInternalDeviceGetHandleByIndex_v2"
| "entry (NvmlDeviceGetCudaComputeCapability a b c) =
     nvmlInternalDeviceGetCudaComputeCapability"

fun arguments :: "wrapper \<Rightarrow> int list" where
  "arguments NvmlInit = []"
| "arguments NvmlShutdown = []"
| "arguments (NvmlDeviceGetHandleByPciBusId a b) = [a, b]"
| "arguments (NvmlDeviceGetHandleByIndex a b) = [a, b]"
| "arguments (NvmlDeviceGetIndex a b) = [a, b]"
| "arguments (NvmlDeviceSetCpuAffinity a) = [a]"
| "arguments (NvmlDeviceClearCpuAffinity a) = [a]"
| "arguments (NvmlSystemGetDriverVersion a b) = [a, b]"
| "arguments (NvmlDeviceGetCpuAffinity a b c) = [a, b, c]"
| "arguments (NvmlDeviceGetCpuAffinityWithinScope a b c d) = [a, b, c, d]"
| "arguments (NvmlDeviceGetBrand a b) = [a, b]"
| "arguments (NvmlDeviceGetCount_v2 a) = [a]"
| "arguments (NvmlDeviceGetHandleByIndex_v2 a b) = [a, b]"
| "arguments (NvmlDeviceGetCudaComputeCapability a b c) = [a, b, c]"

text \<open>
  The name of the operation a wrapper stands for: the wrapper's own name after
  \<^verbatim>\<open>wrapNvml\<close>, which is also the exported symbol's name after \<^verbatim>\<open>nvml\<close>.
\<close>

fun operation_name :: "wrapper \<Rightarrow> string" where
  "operation_name NvmlInit = ''Init''"
| "operation_name NvmlShutdown = ''Shutdown''"
| "operation_name (NvmlDeviceGetHandleByPciBusId a b) = ''DeviceGetHandleByPciBusId''"
| "operation_name (NvmlDeviceGetHandleByIndex a b) = ''DeviceGetHandleByIndex''"
| "operation_name (NvmlDeviceGetIndex a b) = ''DeviceGetIndex''"
| "operation_name (NvmlDeviceSetCpuAffinity a) = ''DeviceSetCpuAffinity''"
| "operation_name (NvmlDeviceClearCpuAffinity a) = ''DeviceClearCpuAffinity''"
| "operation_name (NvmlSystemGetDriverVersion a b) = ''SystemGetDriverVersion''"
| "operation_name (NvmlDeviceGetCpuAffinity a b c) = ''DeviceGetCpuAffinity''"
| "operation_name (NvmlDeviceGetCpuAffinityWithinScope a b c d) =
     ''DeviceGetCpuAffinityWithinScope''"
| "operation_name (NvmlDeviceGetBrand a b) = ''DeviceGetBrand''"
| "operation_name (NvmlDeviceGetCount_v2 a) = ''DeviceGetCount_v2''"
| "operation_name (NvmlDeviceGetHandleByIndex_v2 a b) = ''DeviceGetHandleByIndex_v2''"
| "operation_name (NvmlDeviceGetCudaComputeCapability a b c) =
     ''DeviceGetCudaComputeCapability''"

subsection \<open>Sequences of calls\<close>

text \<open>
  What a client can do with the file, one call at a time; the world may differ from call
  to call.  An exception leaves the process running with the globals as they are, so the
  run goes on; a call through a null pointer ends it.  \<open>run\<close> gives the state after the
  calls.
\<close>

datatype call = WrapSymbols | HasCuda11NvmlFunctions | Wrapper wrapper

datatype reply = Status DALIError_t | Answer bool

fun step :: "nat \<Rightarrow> env \<Rightarrow> call \<Rightarrow> nvml_state \<Rightarrow> reply outcome \<times> nvml_state" where
  "step v e WrapSymbols s = apfst (map_outcome Status) (wrapSymbols v e s)"
| "step v e HasCuda11NvmlFunctions s =
     (Returns (Answer (wrapHasCuda11NvmlFunctions v s)), s)"
| "step v e (Wrapper w) s = apfst (map_outcome Status) (invoke e w s)"

fun run :: "nat \<Rightarrow> (env \<times> call) list \<Rightarrow> nvml_state \<Rightarrow> nvml_state" where
  "run v [] s = s"
| "run v ((e, c) # cs) s =
     (case step v e c s of
        (Crash, s1) \<Rightarrow> s1
      | (_, s1) \<Rightarrow> run v cs s1)"

subsection \<open>First calls from several threads\<close>

text \<open>
  \<^verbatim>\<open>wrapSymbols\<close> takes no lock and uses no once primitive: line 77 reads the flag, and
  lines 80--136 open the library, resolve the symbols and write the flag.  \<open>wrapSymbols_pass\<close>
  is lines 80--136, what a caller does once it has found the flag clear.
\<close>

definition wrapSymbols_pass ::
    "nat \<Rightarrow> env \<Rightarrow> nvml_state \<Rightarrow> DALIError_t outcome \<times> nvml_state" where
  "wrapSymbols_pass CUDART_VERSION e s =
     (let s1 = (emit (Dlopen ''libnvidia-ml.so'') s)
                 \<lparr>nvmlhandle := dlopen e ''libnvidia-ml.so''\<rparr>
      in if nvmlhandle s1 = NULL then
           (let s2 = (emit (Dlopen ''libnvidia-ml.so.1'') s1)
                       \<lparr>nvmlhandle := dlopen e ''libnvidia-ml.so.1''\<rparr>
            in if nvmlhandle s2 = NULL then
                 (Throws ''Failed to open libnvidia-ml.so[.1]'', s2)
               else resolve_all CUDART_VERSION e s2)
         else resolve_all CUDART_VERSION e s1)"

text \<open>
  Threads that call \<^verbatim>\<open>wrapSymbols\<close> share the globals.  Each thread is at the flag test,
  or past it with the flag found clear, or done with its result.  A step of a thread is
  the flag test, or the whole of lines 80--136 with no other thread in between.  That is
  coarser than the machine, where the threads' loads and stores interleave freely, and it
  is the granularity at which a lock around the function would make the two steps one.
  A schedule names the thread that moves next and the world it moves in.
\<close>

datatype pc = AtTest | InPass | Done "DALIError_t outcome"

fun thread_step :: "nat \<Rightarrow> env \<Rightarrow> pc \<Rightarrow> nvml_state \<Rightarrow> pc \<times> nvml_state" where
  "thread_step v e AtTest s =
     (if symbolsLoaded s \<noteq> 0 then (Done (Returns DALISuccess), s) else (InPass, s))"
| "thread_step v e InPass s =
     (case wrapSymbols_pass v e s of (r, s1) \<Rightarrow> (Done r, s1))"
| "thread_step v e (Done r) s = (Done r, s)"

fun interleave ::
    "nat \<Rightarrow> (nat \<times> env) list \<Rightarrow> pc list \<times> nvml_state \<Rightarrow> pc list \<times> nvml_state" where
  "interleave v [] (pcs, s) = (pcs, s)"
| "interleave v ((i, e) # schedule) (pcs, s) =
     (if i < length pcs then
        (case thread_step v e (pcs ! i) s of
           (pc1, s1) \<Rightarrow> interleave v schedule (pcs[i := pc1], s1))
      else interleave v schedule (pcs, s))"

text \<open>
  Every resolution pass begins with one \<^verbatim>\<open>dlopen\<close> of the unversioned name and calls it
  nowhere else, so the passes that have run are counted in the trace.
\<close>

definition passes :: "nvml_state \<Rightarrow> nat" where
  "passes s = count_list (trace s) (Dlopen ''libnvidia-ml.so'')"

subsection \<open>What a resolution pass leaves in the table\<close>

text \<open>
  The expansions of \<^verbatim>\<open>LOAD_SYM\<close> that succeed before the first failure are those of the
  longest prefix of the list whose symbols all resolve; \<open>assign_all\<close> performs their
  assignments \<^verbatim>\<open>*cast = tmp\<close> on a table, in order.
\<close>

definition resolved_prefix ::
    "env \<Rightarrow> addr \<Rightarrow> (string \<times> funcptr) list \<Rightarrow> (string \<times> funcptr) list" where
  "resolved_prefix e handle xs =
     takeWhile (\<lambda>(symbol, fp). dlsym e handle symbol \<noteq> NULL) xs"

fun assign_all ::
    "env \<Rightarrow> addr \<Rightarrow> (string \<times> funcptr) list \<Rightarrow> (funcptr \<Rightarrow> addr) \<Rightarrow> (funcptr \<Rightarrow> addr)" where
  "assign_all e handle [] t = t"
| "assign_all e handle ((symbol, fp) # rest) t =
     assign_all e handle rest (t(fp := dlsym e handle symbol))"

text \<open>
  What holds of the globals in every state a client can reach: once the flag is set,
  every pointer the build loads is non-null; the brand pointer is never set before the
  scoped-affinity pointer, which is loaded just before it; a build below CUDA 11 never
  touches the five CUDA 11 pointers.
\<close>

definition loader_invariant :: "nat \<Rightarrow> nvml_state \<Rightarrow> bool" where
  "loader_invariant v s \<longleftrightarrow>
     (symbolsLoaded s \<noteq> 0 \<longrightarrow> (\<forall>fp \<in> snd ` set (symbols_to_load v). table s fp \<noteq> NULL)) \<and>
     (table s nvmlInternalDeviceGetBrand \<noteq> NULL \<longrightarrow>
        table s nvmlInternalDeviceGetCpuAffinityWithinScope \<noteq> NULL) \<and>
     (v < 11000 \<longrightarrow> (\<forall>fp \<in> snd ` set cuda11_symbols. table s fp = NULL))"

subsection \<open>Stub worlds\<close>

text \<open>
  A stub library for concrete runs: it opens under the versioned name only, with handle
  1; it exports the listed symbols at the listed addresses; the code at address \<open>a\<close>
  returns \<open>ret a\<close>; its error-to-string function knows code 1.  \<open>nvml_exports\<close> is a
  library with all fifteen symbols, \<open>no_library\<close> a machine without the library.
\<close>

definition stub_library ::
    "(string \<times> addr) list \<Rightarrow> (addr \<Rightarrow> nvmlReturn_t) \<Rightarrow> int \<Rightarrow> env" where
  "stub_library exported ret driver_version =
     \<lparr>dlopen = (\<lambda>name. if name = ''libnvidia-ml.so.1'' then 1 else NULL),
      dlsym = (\<lambda>handle symbol.
                if handle = 1 then
                  (case map_of exported symbol of Some a \<Rightarrow> a | None \<Rightarrow> NULL)
                else NULL),
      dlerror = (\<lambda>name. ''undefined symbol: '' @ name),
      cudaDriverGetVersion = (0, driver_version),
      native = (\<lambda>a args. ret a),
      errstring = (\<lambda>a r. if r = 1 then ''Uninitialized'' else ''Unknown Error'')\<rparr>"

definition base_exports :: "(string \<times> addr) list" where
  "base_exports =
     [(''nvmlInit'', 101),
      (''nvmlShutdown'', 102),
      (''nvmlDeviceGetHandleByPciBusId'', 103),
      (''nvmlDeviceGetHandleByIndex'', 104),
      (''nvmlDeviceGetIndex'', 105),
      (''nvmlDeviceSetCpuAffinity'', 106),
      (''nvmlDeviceClearCpuAffinity'', 107),
      (''nvmlSystemGetDriverVersion'', 108),
      (''nvmlDeviceGetCpuAffinity'', 109),
      (''nvmlErrorString'', 110)]"

definition nvml_exports :: "(string \<times> addr) list" where
  "nvml_exports =
     base_exports @
     [(''nvmlDeviceGetCpuAffinityWithinScope'', 111),
      (''nvmlDeviceGetBrand'', 112),
      (''nvmlDeviceGetCount_v2'', 113),
      (''nvmlDeviceGetHandleByIndex_v2'', 114),
      (''nvmlDeviceGetCudaComputeCapability'', 115)]"

text \<open>
  A library as an older driver ships it: the base symbols and the scoped-affinity query,
  without the brand, count, handle-by-index and compute-capability queries.
\<close>

definition older_exports :: "(string \<times> addr) list" where
  "older_exports = base_exports @ [(''nvmlDeviceGetCpuAffinityWithinScope'', 111)]"

text \<open>The library of the scenario that lacks \<^verbatim>\<open>nvmlDeviceGetBrand\<close> and nothing else.\<close>

definition exports_without_brand :: "(string \<times> addr) list" where
  "exports_without_brand =
     base_exports @
     [(''nvmlDeviceGetCpuAffinityWithinScope'', 111),
      (''nvmlDeviceGetCount_v2'', 113),
      (''nvmlDeviceGetHandleByIndex_v2'', 114),
      (''nvmlDeviceGetCudaComputeCapability'', 115)]"

text \<open>
  The state the loader leaves from the initial state with the full library, and the one
  it leaves with a library that exports \<^verbatim>\<open>nvmlInit\<close> alone.
\<close>

definition loaded_stub_state :: nvml_state where
  "loaded_stub_state =
      \<lparr>symbolsLoaded = 1, nvmlhandle = 1,
       table = (\<lambda>_. NULL)
         (nvmlInternalInit := 101, nvmlInternalShutdown := 102,
          nvmlInternalDeviceGetHandleByPciBusId := 103,
          nvmlInternalDeviceGetHandleByIndex := 104,
          nvmlInternalDeviceGetIndex := 105,
          nvmlInternalDeviceSetCpuAffinity := 106,
          nvmlInternalDeviceClearCpuAffinity := 107,
          nvmlInternalSystemGetDriverVersion := 108,
          nvmlInternalDeviceGetCpuAffinity := 109,
          nvmlInternalErrorString := 110,
          nvmlInternalDeviceGetCpuAffinityWithinScope := 111,
          nvmlInternalDeviceGetBrand := 112,
          nvmlInternalDeviceGetCount_v2 := 113,
          nvmlInternalDeviceGetHandleByIndex_v2 := 114,
          nvmlInternalDeviceGetCudaComputeCapability := 115),
       trace = [Dlopen ''libnvidia-ml.so'', Dlopen ''libnvidia-ml.so.1''] @
               map (\<lambda>(n, fp). Dlsym 1 n) (symbols_to_load 11000)\<rparr>"

definition init_only_state :: nvml_state where
  "init_only_state =
     \<lparr>symbolsLoaded = 0, nvmlhandle = 1,
      table = (\<lambda>_. NULL)(nvmlInternalInit := 101),
      trace = [Dlopen ''libnvidia-ml.so'', Dlopen ''libnvidia-ml.so.1'',
               Dlsym 1 ''nvmlInit'', Dlsym 1 ''nvmlShutdown'', Dlerror]\<rparr>"

text \<open>
  The state a CUDA 11 build is left in by a library that has the symbols up to the
  scoped-affinity query and lacks the brand query.
\<close>

definition without_brand_state :: nvml_state where
  "without_brand_state =
     \<lparr>symbolsLoaded = 0, nvmlhandle = 1,
      table = (\<lambda>_. NULL)
         (nvmlInternalInit := 101, nvmlInternalShutdown := 102,
          nvmlInternalDeviceGetHandleByPciBusId := 103,
          nvmlInternalDeviceGetHandleByIndex := 104,
          nvmlInternalDeviceGetIndex := 105,
          nvmlInternalDeviceSetCpuAffinity := 106,
          nvmlInternalDeviceClearCpuAffinity := 107,
          nvmlInternalSystemGetDriverVersion := 108,
          nvmlInternalDeviceGetCpuAffinity := 109,
          nvmlInternalErrorString := 110,
          nvmlInternalDeviceGetCpuAffinityWithinScope := 111),
      trace = [Dlopen ''libnvidia-ml.so'', Dlopen ''libnvidia-ml.so.1''] @
              map (\<lambda>(n, fp). Dlsym 1 n) base_symbols @
              [Dlsym 1 ''nvmlDeviceGetCpuAffinityWithinScope'',
               Dlsym 1 ''nvmlDeviceGetBrand'', Dlerror]\<rparr>"

definition no_library :: env where
  "no_library =
     \<lparr>dlopen = (\<lambda>name. NULL),
      dlsym = (\<lambda>handle symbol. NULL),
      dlerror = (\<lambda>name. name @ '': cannot open shared object file''),
      cudaDriverGetVersion = (0, 11000),
      native = (\<lambda>a args. NVML_SUCCESS),
      errstring = (\<lambda>a r. ''Unknown Error'')\<rparr>"

section \<open>Properties\<close>

lemma emit_fields [simp]:
  "symbolsLoaded (emit ev s) = symbolsLoaded s"
  "nvmlhandle (emit ev s) = nvmlhandle s"
  "table (emit ev s) = table s"
  "trace (emit ev s) = trace s @ [ev]"
  by (simp_all add: emit_def)

lemmas loader_unfold =
  wrapSymbols_def resolve_all_def symbols_to_load_def base_symbols_def cuda11_symbols_def
  LOAD_SYM_def emit_def initial_state_def NULL_def

lemmas stub_unfold = stub_library_def base_exports_def nvml_exports_def

subsection \<open>The shim\<close>

lemma invoke_FUNC_BODY: "invoke e w s = FUNC_BODY e (entry w) (arguments w) s"
  by (cases w)
     (simp_all add: wrapNvmlInit_def wrapNvmlShutdown_def
        wrapNvmlDeviceGetHandleByPciBusId_def wrapNvmlDeviceGetHandleByIndex_def
        wrapNvmlDeviceGetIndex_def wrapNvmlDeviceSetCpuAffinity_def
        wrapNvmlDeviceClearCpuAffinity_def wrapNvmlSystemGetDriverVersion_def
        wrapNvmlDeviceGetCpuAffinity_def wrapNvmlDeviceGetCpuAffinityWithinScope_def
        wrapNvmlDeviceGetBrand_def wrapNvmlDeviceGetCount_v2_def
        wrapNvmlDeviceGetHandleByIndex_v2_def wrapNvmlDeviceGetCudaComputeCapability_def)

lemma FUNC_BODY_globals:
  "table (snd (FUNC_BODY e fp args s)) = table s"
  "symbolsLoaded (snd (FUNC_BODY e fp args s)) = symbolsLoaded s"
  "nvmlhandle (snd (FUNC_BODY e fp args s)) = nvmlhandle s"
  by (simp_all add: FUNC_BODY_def Let_def)

lemma invoke_globals:
  "table (snd (invoke e w s)) = table s"
  "symbolsLoaded (snd (invoke e w s)) = symbolsLoaded s"
  "nvmlhandle (snd (invoke e w s)) = nvmlhandle s"
  by (simp_all add: invoke_FUNC_BODY FUNC_BODY_globals)

subsection \<open>The loader\<close>

lemma LOAD_SYM_unfold:
  "LOAD_SYM e h n fp s =
     (if dlsym e h n = NULL
      then (Throws (''dlsym failed on '' @ n @ '' - '' @ dlerror e n),
            emit Dlerror (emit (Dlsym h n) s))
      else (Returns (), (emit (Dlsym h n) s)\<lparr>table := (table s)(fp := dlsym e h n)\<rparr>))"
  by (simp add: LOAD_SYM_def Let_def)

lemma load_symbols_Cons:
  "load_symbols e h ((n, fp) # rest) s =
     (if dlsym e h n = NULL
      then (Throws (''dlsym failed on '' @ n @ '' - '' @ dlerror e n),
            emit Dlerror (emit (Dlsym h n) s))
      else load_symbols e h rest
             ((emit (Dlsym h n) s)\<lparr>table := (table s)(fp := dlsym e h n)\<rparr>))"
  by (simp add: LOAD_SYM_unfold)

lemma load_symbols_flag: "symbolsLoaded (snd (load_symbols e h xs s)) = symbolsLoaded s"
  by (induction e h xs s rule: load_symbols.induct) (simp_all add: LOAD_SYM_unfold split: if_splits)

lemma load_symbols_handle: "nvmlhandle (snd (load_symbols e h xs s)) = nvmlhandle s"
  by (induction e h xs s rule: load_symbols.induct) (simp_all add: LOAD_SYM_unfold split: if_splits)

lemma load_symbols_no_Crash: "fst (load_symbols e h xs s) \<noteq> Crash"
  by (induction e h xs s rule: load_symbols.induct) (simp_all add: LOAD_SYM_unfold split: if_splits)

lemma load_symbols_mono:
  "table s fp \<noteq> NULL \<Longrightarrow> table (snd (load_symbols e h xs s)) fp \<noteq> NULL"
  by (induction e h xs s rule: load_symbols.induct) (simp_all add: LOAD_SYM_unfold split: if_splits)

lemma load_symbols_untouched:
  "fp \<notin> snd ` set xs \<Longrightarrow> table (snd (load_symbols e h xs s)) fp = table s fp"
  by (induction e h xs s rule: load_symbols.induct) (simp_all add: LOAD_SYM_unfold split: if_splits)

lemma load_symbols_Returns_iff:
  "fst (load_symbols e h xs s) = Returns () \<longleftrightarrow> (\<forall>(n, fp) \<in> set xs. dlsym e h n \<noteq> NULL)"
  by (induction e h xs s rule: load_symbols.induct) (simp_all add: LOAD_SYM_unfold split: if_splits)

lemma load_symbols_resolved:
  "fst (load_symbols e h xs s) = Returns () \<Longrightarrow> fp \<in> snd ` set xs \<Longrightarrow>
   table (snd (load_symbols e h xs s)) fp \<noteq> NULL"
proof (induction xs arbitrary: s)
  case Nil
  then show ?case by simp
next
  case (Cons x xs)
  obtain n g where x: "x = (n, g)" by (cases x)
  show ?case
  proof (cases "dlsym e h n = NULL")
    case True
    with Cons.prems x show ?thesis by (simp add: load_symbols_Cons del: load_symbols.simps(2))
  next
    case False
    let ?s1 = "(emit (Dlsym h n) s)\<lparr>table := (table s)(g := dlsym e h n)\<rparr>"
    have eq: "load_symbols e h (x # xs) s = load_symbols e h xs ?s1"
      using False x by (simp add: load_symbols_Cons del: load_symbols.simps(2))
    show ?thesis
    proof (cases "fp \<in> snd ` set xs")
      case True
      with Cons.IH [of ?s1] Cons.prems(1) eq show ?thesis by simp
    next
      case False
      with Cons.prems(2) x have "fp = g" by auto
      then have "table ?s1 fp \<noteq> NULL" using \<open>dlsym e h n \<noteq> NULL\<close> by simp
      then show ?thesis unfolding eq by (rule load_symbols_mono)
    qed
  qed
qed

lemma load_symbols_table:
  "table (snd (load_symbols e h xs s)) = assign_all e h (resolved_prefix e h xs) (table s)"
  by (induction e h xs s rule: load_symbols.induct)
     (simp_all add: LOAD_SYM_unfold resolved_prefix_def split: if_splits)

lemma load_symbols_head:
  "table (snd (load_symbols e h ((n, fp) # rest) s)) = table s \<or>
   table (snd (load_symbols e h ((n, fp) # rest) s)) fp \<noteq> NULL"
proof (cases "dlsym e h n = NULL")
  case True
  then show ?thesis by (simp add: load_symbols_Cons del: load_symbols.simps(2))
next
  case False
  let ?s1 = "(emit (Dlsym h n) s)\<lparr>table := (table s)(fp := dlsym e h n)\<rparr>"
  have "table ?s1 fp \<noteq> NULL" using False by simp
  then have "table (snd (load_symbols e h rest ?s1)) fp \<noteq> NULL" by (rule load_symbols_mono)
  with False show ?thesis by (simp add: load_symbols_Cons del: load_symbols.simps(2))
qed

lemma load_symbols_append:
  "load_symbols e h (xs @ ys) s =
     (case load_symbols e h xs s of
        (Returns _, s1) \<Rightarrow> load_symbols e h ys s1
      | (Throws m, s1) \<Rightarrow> (Throws m, s1)
      | (Crash, s1) \<Rightarrow> (Crash, s1))"
  by (induction e h xs s rule: load_symbols.induct) (simp_all add: LOAD_SYM_unfold split: if_splits)

lemma load_symbols_Throws:
  "fst (load_symbols e h xs s) = Throws m \<Longrightarrow>
   \<exists>n fp. (n, fp) \<in> set xs \<and> dlsym e h n = NULL \<and>
     m = ''dlsym failed on '' @ n @ '' - '' @ dlerror e n"
  by (induction e h xs s rule: load_symbols.induct)
     (auto simp add: LOAD_SYM_unfold split: if_splits)

lemma wrapSymbols_loaded:
  "symbolsLoaded s \<noteq> 0 \<Longrightarrow> wrapSymbols v e s = (Returns DALISuccess, s)"
  by (simp add: wrapSymbols_def)

lemma resolve_all_unfold:
  "resolve_all v e s =
     (case fst (load_symbols e (nvmlhandle s) (symbols_to_load v) s) of
        Returns _ \<Rightarrow>
          (Returns DALISuccess,
           (snd (load_symbols e (nvmlhandle s) (symbols_to_load v) s))\<lparr>symbolsLoaded := 1\<rparr>)
      | Throws m \<Rightarrow> (Throws m, snd (load_symbols e (nvmlhandle s) (symbols_to_load v) s))
      | Crash \<Rightarrow> (Crash, snd (load_symbols e (nvmlhandle s) (symbols_to_load v) s)))"
  by (simp add: resolve_all_def split: prod.splits outcome.splits)

lemma resolve_all_fst:
  "fst (resolve_all v e s) =
     (case fst (load_symbols e (nvmlhandle s) (symbols_to_load v) s) of
        Returns _ \<Rightarrow> Returns DALISuccess | Throws m \<Rightarrow> Throws m | Crash \<Rightarrow> Crash)"
  by (simp add: resolve_all_unfold split: outcome.splits)

lemma resolve_all_table:
  "table (snd (resolve_all v e s)) =
     table (snd (load_symbols e (nvmlhandle s) (symbols_to_load v) s))"
  by (simp add: resolve_all_unfold split: outcome.splits)

lemma resolve_all_handle: "nvmlhandle (snd (resolve_all v e s)) = nvmlhandle s"
  by (simp add: resolve_all_unfold load_symbols_handle split: outcome.splits)

lemma resolve_all_flag:
  "symbolsLoaded (snd (resolve_all v e s)) =
     (if fst (resolve_all v e s) = Returns DALISuccess then 1 else symbolsLoaded s)"
  by (simp add: resolve_all_unfold load_symbols_flag split: outcome.splits)

text \<open>The state after the two attempts to open the library.\<close>

lemma wrapSymbols_unloaded:
  "symbolsLoaded s = 0 \<Longrightarrow>
   wrapSymbols v e s =
     (if dlopen e ''libnvidia-ml.so'' \<noteq> NULL then
        resolve_all v e
          ((emit (Dlopen ''libnvidia-ml.so'') s)\<lparr>nvmlhandle := dlopen e ''libnvidia-ml.so''\<rparr>)
      else if dlopen e ''libnvidia-ml.so.1'' \<noteq> NULL then
        resolve_all v e
          ((emit (Dlopen ''libnvidia-ml.so.1'') (emit (Dlopen ''libnvidia-ml.so'') s))
             \<lparr>nvmlhandle := dlopen e ''libnvidia-ml.so.1''\<rparr>)
      else
        (Throws ''Failed to open libnvidia-ml.so[.1]'',
         (emit (Dlopen ''libnvidia-ml.so.1'') (emit (Dlopen ''libnvidia-ml.so'') s))
            \<lparr>nvmlhandle := NULL\<rparr>))"
  by (simp add: wrapSymbols_def Let_def emit_def)

lemma wrapSymbols_mono:
  "table s fp \<noteq> NULL \<Longrightarrow> table (snd (wrapSymbols v e s)) fp \<noteq> NULL"
  by (cases "symbolsLoaded s = 0")
     (simp_all add: wrapSymbols_loaded wrapSymbols_unloaded resolve_all_table load_symbols_mono)

lemma wrapSymbols_untouched:
  "fp \<notin> snd ` set (symbols_to_load v) \<Longrightarrow> table (snd (wrapSymbols v e s)) fp = table s fp"
  by (cases "symbolsLoaded s = 0")
     (simp_all add: wrapSymbols_loaded wrapSymbols_unloaded resolve_all_table
        load_symbols_untouched)

lemma wrapSymbols_no_Crash: "fst (wrapSymbols v e s) \<noteq> Crash"
proof (cases "symbolsLoaded s = 0")
  case True
  have "fst (resolve_all v e t) \<noteq> Crash" for t
    using load_symbols_no_Crash [of e "nvmlhandle t" "symbols_to_load v" t]
    by (simp add: resolve_all_fst split: outcome.splits)
  with True show ?thesis by (simp add: wrapSymbols_unloaded)
next
  case False
  then show ?thesis by (simp add: wrapSymbols_loaded)
qed

lemma wrapSymbols_flag:
  "symbolsLoaded (snd (wrapSymbols v e s)) \<noteq> 0 \<longleftrightarrow>
     symbolsLoaded s \<noteq> 0 \<or> fst (wrapSymbols v e s) = Returns DALISuccess"
  by (cases "symbolsLoaded s = 0")
     (simp_all add: wrapSymbols_loaded wrapSymbols_unloaded resolve_all_flag)

lemma wrapSymbols_success_resolved:
  assumes "symbolsLoaded s = 0" "fst (wrapSymbols v e s) = Returns DALISuccess"
    and "fp \<in> snd ` set (symbols_to_load v)"
  shows "table (snd (wrapSymbols v e s)) fp \<noteq> NULL"
proof -
  have *: "table (snd (resolve_all v e t)) fp \<noteq> NULL"
    if "fst (resolve_all v e t) = Returns DALISuccess" for t
  proof -
    from that have "fst (load_symbols e (nvmlhandle t) (symbols_to_load v) t) = Returns ()"
      by (simp add: resolve_all_fst split: outcome.splits)
    from load_symbols_resolved [OF this assms(3)] show ?thesis
      by (simp add: resolve_all_table)
  qed
  from assms(1,2) show ?thesis
    by (auto simp: wrapSymbols_unloaded * split: if_splits)
qed

lemma stub_load_all:
  "wrapSymbols 11000 (stub_library nvml_exports ret dv) initial_state =
     (Returns DALISuccess, loaded_stub_state)"
  by (simp add: loader_unfold stub_unfold loaded_stub_state_def)

lemma stub_load_init_only:
  "wrapSymbols 11000 (stub_library [(''nvmlInit'', 101)] ret dv) initial_state =
     (Throws ''dlsym failed on nvmlShutdown - undefined symbol: nvmlShutdown'',
      init_only_state)"
  by (simp add: loader_unfold stub_unfold init_only_state_def)

lemma no_library_load:
  "wrapSymbols v no_library initial_state =
     (Throws ''Failed to open libnvidia-ml.so[.1]'',
      initial_state\<lparr>trace := [Dlopen ''libnvidia-ml.so'', Dlopen ''libnvidia-ml.so.1'']\<rparr>)"
  by (simp add: wrapSymbols_def emit_def initial_state_def no_library_def)

text \<open>
  C4, as stated, fails: nothing discards what a failed pass resolved.  With a library that
  exports \<^verbatim>\<open>nvmlInit\<close> alone the pass throws at \<^verbatim>\<open>nvmlShutdown\<close>, and the pointer for
  \<^verbatim>\<open>nvmlInit\<close>, null before, holds the resolved address after.
\<close>

theorem failed_load_keeps_resolved_counterexample:
  "fst (wrapSymbols 11000 (stub_library [(''nvmlInit'', 101)] (\<lambda>a. NVML_SUCCESS) 11000)
         initial_state) =
     Throws ''dlsym failed on nvmlShutdown - undefined symbol: nvmlShutdown'' \<and>
   table initial_state nvmlInternalInit = NULL \<and>
   table (snd (wrapSymbols 11000 (stub_library [(''nvmlInit'', 101)] (\<lambda>a. NVML_SUCCESS) 11000)
                 initial_state)) nvmlInternalInit = 101 \<and>
   (101::nat) \<noteq> NULL"
  by (simp add: stub_load_init_only) (simp add: init_only_state_def initial_state_def NULL_def)

text \<open>
  C4, amended.  When \<^verbatim>\<open>wrapSymbols\<close> throws, the flag was and stays false.  If the library
  could not be opened the table is as before.  Otherwise a symbol failed to resolve, and
  the table is the old one with the assignments of every expansion before the failing
  one: entries resolved in the failed pass are kept, the others are untouched.
\<close>

theorem failed_load_leaves_resolved_prefix:
  "fst (wrapSymbols v e s) = Throws m \<Longrightarrow>
   symbolsLoaded s = 0 \<and>
   symbolsLoaded (snd (wrapSymbols v e s)) = 0 \<and>
   (nvmlhandle (snd (wrapSymbols v e s)) = NULL \<longrightarrow>
      table (snd (wrapSymbols v e s)) = table s \<and>
      m = ''Failed to open libnvidia-ml.so[.1]'') \<and>
   (nvmlhandle (snd (wrapSymbols v e s)) \<noteq> NULL \<longrightarrow>
      table (snd (wrapSymbols v e s)) =
        assign_all e (nvmlhandle (snd (wrapSymbols v e s)))
          (resolved_prefix e (nvmlhandle (snd (wrapSymbols v e s))) (symbols_to_load v))
          (table s) \<and>
      (\<exists>symbol fp. (symbol, fp) \<in> set (symbols_to_load v) \<and>
         dlsym e (nvmlhandle (snd (wrapSymbols v e s))) symbol = NULL \<and>
         m = ''dlsym failed on '' @ symbol @ '' - '' @ dlerror e symbol))"
proof -
  assume t: "fst (wrapSymbols v e s) = Throws m"
  have u: "symbolsLoaded s = 0"
  proof (rule ccontr)
    assume "symbolsLoaded s \<noteq> 0"
    then have "wrapSymbols v e s = (Returns DALISuccess, s)" by (rule wrapSymbols_loaded)
    with t show False by simp
  qed
  have f: "symbolsLoaded (snd (wrapSymbols v e s)) = 0"
    using wrapSymbols_flag [of v e s] t u by simp
  have r: "nvmlhandle (snd (resolve_all v e x)) = nvmlhandle x \<and>
      table (snd (resolve_all v e x)) =
        assign_all e (nvmlhandle x) (resolved_prefix e (nvmlhandle x) (symbols_to_load v))
          (table x) \<and>
      (fst (resolve_all v e x) = Throws m \<longrightarrow>
        (\<exists>symbol fp. (symbol, fp) \<in> set (symbols_to_load v) \<and>
           dlsym e (nvmlhandle x) symbol = NULL \<and>
           m = ''dlsym failed on '' @ symbol @ '' - '' @ dlerror e symbol))" for x
    using load_symbols_Throws [of e "nvmlhandle x" "symbols_to_load v" x m]
    by (auto simp: resolve_all_handle resolve_all_table load_symbols_table resolve_all_fst
          split: outcome.splits)
  show ?thesis
  proof (cases "dlopen e ''libnvidia-ml.so'' \<noteq> NULL")
    case True
    let ?x = "(emit (Dlopen ''libnvidia-ml.so'') s)\<lparr>nvmlhandle := dlopen e ''libnvidia-ml.so''\<rparr>"
    have w: "wrapSymbols v e s = resolve_all v e ?x"
      using u True by (simp add: wrapSymbols_unloaded)
    from r [of ?x] t True u f show ?thesis unfolding w by simp
  next
    case False
    note p = this
    show ?thesis
    proof (cases "dlopen e ''libnvidia-ml.so.1'' \<noteq> NULL")
      case True
      let ?x = "(emit (Dlopen ''libnvidia-ml.so.1'') (emit (Dlopen ''libnvidia-ml.so'') s))
             \<lparr>nvmlhandle := dlopen e ''libnvidia-ml.so.1''\<rparr>"
      have w: "wrapSymbols v e s = resolve_all v e ?x"
        using u p True by (simp add: wrapSymbols_unloaded)
      from r [of ?x] t True u f show ?thesis unfolding w by simp
    next
      case False
      with p u t f show ?thesis by (simp add: wrapSymbols_unloaded)
    qed
  qed
qed

theorem failed_load_leaves_resolved_prefix_witness:
  "fst (wrapSymbols 11000 (stub_library [(''nvmlInit'', 101)] (\<lambda>a. NVML_SUCCESS) 11000)
         initial_state) =
     Throws ''dlsym failed on nvmlShutdown - undefined symbol: nvmlShutdown'' \<and>
   nvmlhandle init_only_state \<noteq> NULL \<and>
   table init_only_state =
     assign_all (stub_library [(''nvmlInit'', 101)] (\<lambda>a. NVML_SUCCESS) 11000) 1
       [(''nvmlInit'', nvmlInternalInit)] (table initial_state) \<and>
   fst (wrapSymbols 11000 no_library initial_state) =
     Throws ''Failed to open libnvidia-ml.so[.1]'' \<and>
   nvmlhandle (snd (wrapSymbols 11000 no_library initial_state)) = NULL \<and>
   table (snd (wrapSymbols 11000 no_library initial_state)) = table initial_state"
  using failed_load_leaves_resolved_prefix
    [of 11000 "stub_library [(''nvmlInit'', 101)] (\<lambda>a. NVML_SUCCESS) 11000" initial_state
        "''dlsym failed on nvmlShutdown - undefined symbol: nvmlShutdown''"]
    failed_load_leaves_resolved_prefix
    [of 11000 no_library initial_state "''Failed to open libnvidia-ml.so[.1]''"]
  by (simp add: stub_load_init_only no_library_load)
     (simp add: init_only_state_def initial_state_def NULL_def stub_library_def)

lemma load_symbols_trace:
  "\<exists>evs. trace (snd (load_symbols e h xs s)) = trace s @ evs \<and> (\<forall>n. Dlopen n \<notin> set evs)"
proof (induction e h xs s rule: load_symbols.induct)
  case (1 e handle s)
  then show ?case by simp
next
  case (2 e handle symbol fp rest s)
  show ?case
  proof (cases "dlsym e handle symbol = NULL")
    case True
    then show ?thesis by (simp add: LOAD_SYM_unfold)
  next
    case False
    let ?s1 = "(emit (Dlsym handle symbol) s)\<lparr>table := (table s)(fp := dlsym e handle symbol)\<rparr>"
    from False have l: "LOAD_SYM e handle symbol fp s = (Returns (), ?s1)"
      by (simp add: LOAD_SYM_unfold)
    from "2.IH" [OF l [symmetric] refl] obtain evs where
      "trace (snd (load_symbols e handle rest ?s1)) = trace ?s1 @ evs" "\<forall>n. Dlopen n \<notin> set evs"
      by blast
    then have "trace (snd (load_symbols e handle ((symbol, fp) # rest) s)) =
        trace s @ (Dlsym handle symbol # evs) \<and> (\<forall>n. Dlopen n \<notin> set (Dlsym handle symbol # evs))"
      using l by simp
    then show ?thesis by blast
  qed
qed

lemma resolve_all_trace:
  "\<exists>evs. trace (snd (resolve_all v e s)) = trace s @ evs \<and> (\<forall>n. Dlopen n \<notin> set evs)"
  using load_symbols_trace [of e "nvmlhandle s" "symbols_to_load v" s]
  by (simp add: resolve_all_unfold split: outcome.splits)

text \<open>
  C9, as stated, fails in its last part: when neither name opens, the exception carries
  the fixed text of line 88 and nothing of \<^verbatim>\<open>dlerror()\<close>.  On a machine without the
  library the loader's last message is not part of the exception's message.
\<close>

theorem open_failure_message_counterexample:
  "fst (wrapSymbols 11000 no_library initial_state) =
     Throws ''Failed to open libnvidia-ml.so[.1]'' \<and>
   dlerror no_library ''libnvidia-ml.so.1'' =
     ''libnvidia-ml.so.1: cannot open shared object file'' \<and>
   \<not> sublist ''libnvidia-ml.so.1: cannot open shared object file''
       ''Failed to open libnvidia-ml.so[.1]''"
proof (intro conjI)
  show "fst (wrapSymbols 11000 no_library initial_state) =
     Throws ''Failed to open libnvidia-ml.so[.1]''"
    by (simp add: wrapSymbols_def emit_def initial_state_def no_library_def)
  show "dlerror no_library ''libnvidia-ml.so.1'' =
     ''libnvidia-ml.so.1: cannot open shared object file''"
    by (simp add: no_library_def)
  show "\<not> sublist ''libnvidia-ml.so.1: cannot open shared object file''
       ''Failed to open libnvidia-ml.so[.1]''"
    by code_simp
qed

text \<open>
  C9, amended.  With the flag clear, \<^verbatim>\<open>wrapSymbols\<close> first opens \<^verbatim>\<open>libnvidia-ml.so\<close>.  If
  that gives a handle it opens nothing else; if not, it opens \<^verbatim>\<open>libnvidia-ml.so.1\<close> next
  and nothing after it.  If both fail it throws the fixed message
  \<^verbatim>\<open>Failed to open libnvidia-ml.so[.1]\<close>, having called \<^verbatim>\<open>dlsym\<close> and \<^verbatim>\<open>dlerror\<close> not at
  all and with the table and the flag as they were.
\<close>

theorem open_order_and_fixed_message:
  "symbolsLoaded s = 0 \<Longrightarrow>
   (\<exists>evs. trace (snd (wrapSymbols v e s)) = trace s @ Dlopen ''libnvidia-ml.so'' # evs \<and>
      (dlopen e ''libnvidia-ml.so'' \<noteq> NULL \<longrightarrow>
         (\<forall>n. Dlopen n \<notin> set evs) \<and>
         nvmlhandle (snd (wrapSymbols v e s)) = dlopen e ''libnvidia-ml.so'') \<and>
      (dlopen e ''libnvidia-ml.so'' = NULL \<longrightarrow>
         (\<exists>evs'. evs = Dlopen ''libnvidia-ml.so.1'' # evs' \<and> (\<forall>n. Dlopen n \<notin> set evs')) \<and>
         nvmlhandle (snd (wrapSymbols v e s)) = dlopen e ''libnvidia-ml.so.1'')) \<and>
   (dlopen e ''libnvidia-ml.so'' = NULL \<and> dlopen e ''libnvidia-ml.so.1'' = NULL \<longrightarrow>
      wrapSymbols v e s =
        (Throws ''Failed to open libnvidia-ml.so[.1]'',
         s\<lparr>nvmlhandle := NULL,
           trace := trace s @ [Dlopen ''libnvidia-ml.so'', Dlopen ''libnvidia-ml.so.1'']\<rparr>))"
proof -
  assume u: "symbolsLoaded s = 0"
  show ?thesis
  proof (cases "dlopen e ''libnvidia-ml.so'' \<noteq> NULL")
    case True
    let ?x = "(emit (Dlopen ''libnvidia-ml.so'') s)\<lparr>nvmlhandle := dlopen e ''libnvidia-ml.so''\<rparr>"
    have w: "wrapSymbols v e s = resolve_all v e ?x"
      using u True by (simp add: wrapSymbols_unloaded)
    from resolve_all_trace [of v e ?x] obtain evs where
      "trace (snd (resolve_all v e ?x)) = trace ?x @ evs" "\<forall>n. Dlopen n \<notin> set evs"
      by blast
    with True show ?thesis unfolding w by (simp add: resolve_all_handle)
  next
    case False
    note p = this
    show ?thesis
    proof (cases "dlopen e ''libnvidia-ml.so.1'' \<noteq> NULL")
      case True
      let ?x = "(emit (Dlopen ''libnvidia-ml.so.1'') (emit (Dlopen ''libnvidia-ml.so'') s))
             \<lparr>nvmlhandle := dlopen e ''libnvidia-ml.so.1''\<rparr>"
      have w: "wrapSymbols v e s = resolve_all v e ?x"
        using u p True by (simp add: wrapSymbols_unloaded)
      from resolve_all_trace [of v e ?x] obtain evs where
        "trace (snd (resolve_all v e ?x)) = trace ?x @ evs" "\<forall>n. Dlopen n \<notin> set evs"
        by blast
      with p True show ?thesis unfolding w by (simp add: resolve_all_handle)
    next
      case False
      with p u show ?thesis by (simp add: wrapSymbols_unloaded emit_def)
    qed
  qed
qed

theorem open_order_and_fixed_message_witness:
  "symbolsLoaded initial_state = 0 \<and>
   dlopen no_library ''libnvidia-ml.so'' = NULL \<and>
   dlopen no_library ''libnvidia-ml.so.1'' = NULL \<and>
   wrapSymbols 11000 no_library initial_state =
     (Throws ''Failed to open libnvidia-ml.so[.1]'',
      initial_state\<lparr>nvmlhandle := NULL,
        trace := trace initial_state @
          [Dlopen ''libnvidia-ml.so'', Dlopen ''libnvidia-ml.so.1'']\<rparr>) \<and>
   dlopen (stub_library nvml_exports (\<lambda>a. NVML_SUCCESS) 11000) ''libnvidia-ml.so'' = NULL \<and>
   take 2 (trace (snd (wrapSymbols 11000 (stub_library nvml_exports (\<lambda>a. NVML_SUCCESS) 11000)
                         initial_state))) =
     [Dlopen ''libnvidia-ml.so'', Dlopen ''libnvidia-ml.so.1''] \<and>
   nvmlhandle (snd (wrapSymbols 11000 (stub_library nvml_exports (\<lambda>a. NVML_SUCCESS) 11000)
                      initial_state)) = 1 \<and>
   dlopen ((stub_library nvml_exports (\<lambda>a. NVML_SUCCESS) 11000)\<lparr>dlopen := \<lambda>name. 1\<rparr>)
     ''libnvidia-ml.so'' = 1 \<and>
   take 1 (trace (snd (wrapSymbols 11000
       ((stub_library nvml_exports (\<lambda>a. NVML_SUCCESS) 11000)\<lparr>dlopen := \<lambda>name. 1\<rparr>)
       initial_state))) = [Dlopen ''libnvidia-ml.so''] \<and>
   Dlopen ''libnvidia-ml.so.1'' \<notin> set (trace (snd (wrapSymbols 11000
       ((stub_library nvml_exports (\<lambda>a. NVML_SUCCESS) 11000)\<lparr>dlopen := \<lambda>name. 1\<rparr>)
       initial_state))) \<and>
   (1::nat) \<noteq> NULL"
  using open_order_and_fixed_message [of initial_state 11000 no_library]
    open_order_and_fixed_message
      [of initial_state 11000 "stub_library nvml_exports (\<lambda>a. NVML_SUCCESS) 11000"]
    open_order_and_fixed_message
      [of initial_state 11000
          "(stub_library nvml_exports (\<lambda>a. NVML_SUCCESS) 11000)\<lparr>dlopen := \<lambda>name. 1\<rparr>"]
  by (simp add: no_library_load stub_load_all)
     (simp add: loader_unfold stub_unfold loaded_stub_state_def no_library_def)

subsection \<open>Reachable states\<close>

lemma cuda11_not_base:
  "fp \<in> snd ` set cuda11_symbols \<Longrightarrow> fp \<notin> snd ` set base_symbols"
  by (auto simp: cuda11_symbols_def base_symbols_def)

lemma load_symbols_chain:
  assumes "table s nvmlInternalDeviceGetBrand \<noteq> NULL \<longrightarrow>
           table s nvmlInternalDeviceGetCpuAffinityWithinScope \<noteq> NULL"
  shows "table (snd (load_symbols e h (symbols_to_load v) s)) nvmlInternalDeviceGetBrand \<noteq> NULL \<longrightarrow>
         table (snd (load_symbols e h (symbols_to_load v) s))
           nvmlInternalDeviceGetCpuAffinityWithinScope \<noteq> NULL"
proof (cases "v \<ge> 11000")
  case False
  have "nvmlInternalDeviceGetBrand \<notin> snd ` set (symbols_to_load v)"
       "nvmlInternalDeviceGetCpuAffinityWithinScope \<notin> snd ` set (symbols_to_load v)"
    using False by (auto simp: symbols_to_load_def base_symbols_def)
  with assms show ?thesis by (simp add: load_symbols_untouched)
next
  case True
  define rest where "rest = tl cuda11_symbols"
  have syms: "symbols_to_load v =
      base_symbols @ (''nvmlDeviceGetCpuAffinityWithinScope'',
                      nvmlInternalDeviceGetCpuAffinityWithinScope) # rest"
    using True by (simp add: symbols_to_load_def cuda11_symbols_def rest_def)
  have nb: "nvmlInternalDeviceGetBrand \<notin> snd ` set base_symbols"
           "nvmlInternalDeviceGetCpuAffinityWithinScope \<notin> snd ` set base_symbols"
    by (auto simp: base_symbols_def)
  let ?r = "load_symbols e h base_symbols s"
  have s1: "table (snd ?r) nvmlInternalDeviceGetBrand \<noteq> NULL \<longrightarrow>
            table (snd ?r) nvmlInternalDeviceGetCpuAffinityWithinScope \<noteq> NULL"
    using assms nb by (simp add: load_symbols_untouched)
  show ?thesis
  proof (cases "fst ?r")
    case (Returns u)
    then have eq: "load_symbols e h (symbols_to_load v) s =
        load_symbols e h ((''nvmlDeviceGetCpuAffinityWithinScope'',
                      nvmlInternalDeviceGetCpuAffinityWithinScope) # rest) (snd ?r)"
      unfolding syms load_symbols_append by (cases ?r) simp
    from load_symbols_head [of e h "''nvmlDeviceGetCpuAffinityWithinScope''"
        nvmlInternalDeviceGetCpuAffinityWithinScope rest "snd ?r"] s1
    show ?thesis unfolding eq by auto
  next
    case (Throws m)
    then have "load_symbols e h (symbols_to_load v) s = ?r"
      unfolding syms load_symbols_append by (cases ?r) simp
    with s1 show ?thesis by simp
  next
    case Crash
    then show ?thesis by (simp add: load_symbols_no_Crash)
  qed
qed

lemma wrapSymbols_chain:
  assumes "table s nvmlInternalDeviceGetBrand \<noteq> NULL \<longrightarrow>
           table s nvmlInternalDeviceGetCpuAffinityWithinScope \<noteq> NULL"
  shows "table (snd (wrapSymbols v e s)) nvmlInternalDeviceGetBrand \<noteq> NULL \<longrightarrow>
         table (snd (wrapSymbols v e s)) nvmlInternalDeviceGetCpuAffinityWithinScope \<noteq> NULL"
proof (cases "symbolsLoaded s = 0")
  case True
  have "table (snd (resolve_all v e t)) nvmlInternalDeviceGetBrand \<noteq> NULL \<longrightarrow>
        table (snd (resolve_all v e t)) nvmlInternalDeviceGetCpuAffinityWithinScope \<noteq> NULL"
    if "table t = table s" for t
    unfolding resolve_all_table using load_symbols_chain [of t e "nvmlhandle t" v] assms that
    by simp
  with True assms show ?thesis
    by (simp add: wrapSymbols_unloaded)
next
  case False
  with assms show ?thesis by (simp add: wrapSymbols_loaded)
qed

lemma loader_invariant_initial: "loader_invariant v initial_state"
  by (simp add: loader_invariant_def initial_state_def)

lemma loader_invariant_wrapSymbols:
  assumes "loader_invariant v s"
  shows "loader_invariant v (snd (wrapSymbols v e s))"
proof (cases "symbolsLoaded s = 0")
  case False
  with assms show ?thesis by (simp add: wrapSymbols_loaded)
next
  case True
  let ?s' = "snd (wrapSymbols v e s)"
  have a: "symbolsLoaded ?s' \<noteq> 0 \<longrightarrow> (\<forall>fp \<in> snd ` set (symbols_to_load v). table ?s' fp \<noteq> NULL)"
    using True wrapSymbols_flag [of v e s] wrapSymbols_success_resolved [of s v e]
    by auto
  have b: "table ?s' nvmlInternalDeviceGetBrand \<noteq> NULL \<longrightarrow>
           table ?s' nvmlInternalDeviceGetCpuAffinityWithinScope \<noteq> NULL"
    using assms by (intro wrapSymbols_chain) (simp add: loader_invariant_def)
  have c: "v < 11000 \<longrightarrow> (\<forall>fp \<in> snd ` set cuda11_symbols. table ?s' fp = NULL)"
  proof (intro impI ballI)
    fix fp assume v: "v < 11000" and fp: "fp \<in> snd ` set cuda11_symbols"
    then have "fp \<notin> snd ` set (symbols_to_load v)"
      using cuda11_not_base [OF fp] by (simp add: symbols_to_load_def)
    then have "table ?s' fp = table s fp" by (rule wrapSymbols_untouched)
    with assms v fp show "table ?s' fp = NULL" by (auto simp: loader_invariant_def)
  qed
  from a b c show ?thesis unfolding loader_invariant_def by blast
qed

lemma loader_invariant_step:
  "loader_invariant v s \<Longrightarrow> loader_invariant v (snd (step v e c s))"
proof (cases c)
  case WrapSymbols
  assume "loader_invariant v s"
  then show ?thesis unfolding WrapSymbols by (simp add: loader_invariant_wrapSymbols)
next
  case HasCuda11NvmlFunctions
  assume "loader_invariant v s"
  then show ?thesis unfolding HasCuda11NvmlFunctions by simp
next
  case (Wrapper w)
  assume "loader_invariant v s"
  then show ?thesis unfolding Wrapper by (simp add: loader_invariant_def invoke_globals)
qed

lemma run_Cons:
  "run v ((e, c) # cs) s =
     (if fst (step v e c s) = Crash then snd (step v e c s) else run v cs (snd (step v e c s)))"
  by (cases "step v e c s"; cases "fst (step v e c s)") auto

lemma loader_invariant_run:
  "loader_invariant v s \<Longrightarrow> loader_invariant v (run v cs s)"
proof (induction cs arbitrary: s)
  case Nil
  then show ?case by simp
next
  case (Cons x cs)
  obtain e c where x: "x = (e, c)" by (cases x)
  from Cons.prems have "loader_invariant v (snd (step v e c s))"
    by (rule loader_invariant_step)
  with Cons.IH show ?case unfolding x run_Cons by simp
qed

lemma step_loaded:
  "symbolsLoaded s \<noteq> 0 \<Longrightarrow>
   table (snd (step v e c s)) = table s \<and> symbolsLoaded (snd (step v e c s)) = symbolsLoaded s \<and>
   nvmlhandle (snd (step v e c s)) = nvmlhandle s"
  by (cases c) (simp_all add: wrapSymbols_loaded invoke_globals)

lemma run_loaded:
  "symbolsLoaded s \<noteq> 0 \<Longrightarrow>
   table (run v cs s) = table s \<and> symbolsLoaded (run v cs s) = symbolsLoaded s \<and>
   nvmlhandle (run v cs s) = nvmlhandle s"
proof (induction cs arbitrary: s)
  case Nil
  then show ?case by simp
next
  case (Cons x cs)
  obtain e c where x: "x = (e, c)" by (cases x)
  note st = step_loaded [OF Cons.prems, of v e c]
  then have "symbolsLoaded (snd (step v e c s)) \<noteq> 0" using Cons.prems by simp
  from Cons.IH [OF this] st show ?case unfolding x run_Cons by simp
qed

lemma stringify_entry: "stringify (entry w) = ''nvmlInternal'' @ operation_name w"
  by (cases w) simp_all

text \<open>
  C2, as stated, fails in its second half: not every wrapper with a non-null pointer turns
  a failing code into \<^verbatim>\<open>DALIError\<close> and a diagnostic.  In the state left by the pass that
  resolved \<^verbatim>\<open>nvmlInit\<close> and threw at \<^verbatim>\<open>nvmlShutdown\<close>, the pointer of \<^verbatim>\<open>wrapNvmlInit\<close> is not
  null; when the native call returns code 3 the wrapper calls through the null
  error-to-string pointer: it returns nothing and warns of nothing.
\<close>

theorem failing_code_without_diagnostic_counterexample:
  "wrapSymbols 11000 (stub_library [(''nvmlInit'', 101)] (\<lambda>a. 3) 11000) initial_state =
     (Throws ''dlsym failed on nvmlShutdown - undefined symbol: nvmlShutdown'',
      init_only_state) \<and>
   table init_only_state (entry NvmlInit) = 101 \<and> (101::nat) \<noteq> NULL \<and>
   native (stub_library [(''nvmlInit'', 101)] (\<lambda>a. 3) 11000)
     (table init_only_state (entry NvmlInit)) (arguments NvmlInit) = 3 \<and>
   (3::nat) \<noteq> NVML_SUCCESS \<and>
   invoke (stub_library [(''nvmlInit'', 101)] (\<lambda>a. 3) 11000) NvmlInit init_only_state =
     (Crash, init_only_state\<lparr>trace := trace init_only_state @ [NativeCall 101 []]\<rparr>)"
  by (simp add: stub_load_init_only)
     (simp add: init_only_state_def stub_library_def wrapNvmlInit_def FUNC_BODY_def emit_def
        NULL_def NVML_SUCCESS_def)

text \<open>
  C2, amended.  A wrapper whose pointer is not \<^verbatim>\<open>NULL\<close> returns \<^verbatim>\<open>DALISuccess\<close> exactly when
  the native call returns \<^verbatim>\<open>NVML_SUCCESS\<close>.  On any other code, provided the error-to-string
  pointer is not null, it returns \<^verbatim>\<open>DALIError\<close> after one native call, one call of the
  library's error-to-string function on that code and one warning.  The warning is
  \<^verbatim>\<open>nvmlInternal\<close>, the operation's name, \<^verbatim>\<open>(...) failed: \<close> and the string that function
  returned, so it contains the operation's name and that string.
\<close>

theorem wrapper_result_follows_native_code:
  "table s (entry w) \<noteq> NULL \<Longrightarrow>
   (fst (invoke e w s) = Returns DALISuccess \<longleftrightarrow>
      native e (table s (entry w)) (arguments w) = NVML_SUCCESS) \<and>
   (native e (table s (entry w)) (arguments w) \<noteq> NVML_SUCCESS \<and>
    table s nvmlInternalErrorString \<noteq> NULL \<longrightarrow>
      invoke e w s =
        (Returns DALIError,
         s\<lparr>trace := trace s @
            [NativeCall (table s (entry w)) (arguments w),
             ErrorStringCall (table s nvmlInternalErrorString)
               (native e (table s (entry w)) (arguments w)),
             Warn (''nvmlInternal'' @ operation_name w @ ''(...) failed: '' @
                   errstring e (table s nvmlInternalErrorString)
                     (native e (table s (entry w)) (arguments w)))]\<rparr>) \<and>
      sublist (operation_name w)
        (''nvmlInternal'' @ operation_name w @ ''(...) failed: '' @
         errstring e (table s nvmlInternalErrorString)
           (native e (table s (entry w)) (arguments w))) \<and>
      sublist (errstring e (table s nvmlInternalErrorString)
                 (native e (table s (entry w)) (arguments w)))
        (''nvmlInternal'' @ operation_name w @ ''(...) failed: '' @
         errstring e (table s nvmlInternalErrorString)
           (native e (table s (entry w)) (arguments w))))"
proof (intro conjI impI)
  assume nn: "table s (entry w) \<noteq> NULL"
  show "fst (invoke e w s) = Returns DALISuccess \<longleftrightarrow>
      native e (table s (entry w)) (arguments w) = NVML_SUCCESS"
    using nn by (simp add: invoke_FUNC_BODY FUNC_BODY_def Let_def)
next
  let ?ret = "native e (table s (entry w)) (arguments w)"
  assume nn: "table s (entry w) \<noteq> NULL"
    and f: "?ret \<noteq> NVML_SUCCESS \<and> table s nvmlInternalErrorString \<noteq> NULL"
  then have "invoke e w s =
        (Returns DALIError,
         s\<lparr>trace := trace s @
            [NativeCall (table s (entry w)) (arguments w),
             ErrorStringCall (table s nvmlInternalErrorString) ?ret,
             Warn (stringify (entry w) @ ''(...) failed: '' @
                   errstring e (table s nvmlInternalErrorString) ?ret)]\<rparr>)"
    by (simp add: invoke_FUNC_BODY FUNC_BODY_def Let_def emit_def)
  then show "invoke e w s =
        (Returns DALIError,
         s\<lparr>trace := trace s @
            [NativeCall (table s (entry w)) (arguments w),
             ErrorStringCall (table s nvmlInternalErrorString) ?ret,
             Warn (''nvmlInternal'' @ operation_name w @ ''(...) failed: '' @
                   errstring e (table s nvmlInternalErrorString) ?ret)]\<rparr>)"
    by (simp only: stringify_entry append_assoc)
next
  have "sublist (operation_name w)
        (''nvmlInternal'' @ operation_name w @ (''(...) failed: '' @
         errstring e (table s nvmlInternalErrorString)
           (native e (table s (entry w)) (arguments w))))"
    by (rule sublist_appendI)
  then show "sublist (operation_name w)
        (''nvmlInternal'' @ operation_name w @ ''(...) failed: '' @
         errstring e (table s nvmlInternalErrorString)
           (native e (table s (entry w)) (arguments w)))"
    by simp
next
  have "sublist (errstring e (table s nvmlInternalErrorString)
                 (native e (table s (entry w)) (arguments w)))
        ((''nvmlInternal'' @ operation_name w @ ''(...) failed: '') @
         errstring e (table s nvmlInternalErrorString)
           (native e (table s (entry w)) (arguments w)))"
    by (rule sublist_append_leftI)
  then show "sublist (errstring e (table s nvmlInternalErrorString)
                 (native e (table s (entry w)) (arguments w)))
        (''nvmlInternal'' @ operation_name w @ ''(...) failed: '' @
         errstring e (table s nvmlInternalErrorString)
           (native e (table s (entry w)) (arguments w)))"
    by simp
qed

theorem wrapper_result_follows_native_code_witness:
  "table loaded_stub_state (entry NvmlShutdown) \<noteq> NULL \<and>
   native (stub_library nvml_exports (\<lambda>a. 1) 11000)
     (table loaded_stub_state (entry NvmlShutdown)) (arguments NvmlShutdown) \<noteq> NVML_SUCCESS \<and>
   table loaded_stub_state nvmlInternalErrorString \<noteq> NULL \<and>
   invoke (stub_library nvml_exports (\<lambda>a. 1) 11000) NvmlShutdown loaded_stub_state =
     (Returns DALIError,
      loaded_stub_state\<lparr>trace := trace loaded_stub_state @
        [NativeCall 102 [], ErrorStringCall 110 1,
         Warn ''nvmlInternalShutdown(...) failed: Uninitialized'']\<rparr>)"
  using wrapper_result_follows_native_code
    [of loaded_stub_state NvmlShutdown "stub_library nvml_exports (\<lambda>a. 1) 11000"]
  by (simp add: loaded_stub_state_def stub_library_def NULL_def NVML_SUCCESS_def)

lemma run_library_absent:
  assumes "\<forall>(e, c) \<in> set cs.
             dlopen e ''libnvidia-ml.so'' = NULL \<and> dlopen e ''libnvidia-ml.so.1'' = NULL"
    and "symbolsLoaded s = 0"
  shows "table (run v cs s) = table s \<and> symbolsLoaded (run v cs s) = 0"
  using assms
proof (induction cs arbitrary: s)
  case Nil
  then show ?case by simp
next
  case (Cons x cs)
  obtain e c where x: "x = (e, c)" by (cases x)
  from Cons.prems(1) x have
    closed: "dlopen e ''libnvidia-ml.so'' = NULL \<and> dlopen e ''libnvidia-ml.so.1'' = NULL"
    and rest: "\<forall>(e, c) \<in> set cs.
             dlopen e ''libnvidia-ml.so'' = NULL \<and> dlopen e ''libnvidia-ml.so.1'' = NULL"
    by simp_all
  have st: "table (snd (step v e c s)) = table s \<and> symbolsLoaded (snd (step v e c s)) = 0"
    using closed Cons.prems(2)
    by (cases c) (simp_all add: wrapSymbols_unloaded invoke_globals)
  from Cons.IH [OF rest, of "snd (step v e c s)"] st show ?case
    unfolding x run_Cons by simp
qed

text \<open>
  C1, as stated, fails in its second half: a wrapper called before any successful load
  need not return \<^verbatim>\<open>DALIError\<close>.  The pass that resolved \<^verbatim>\<open>nvmlInit\<close> and threw at
  \<^verbatim>\<open>nvmlShutdown\<close> leaves the flag clear and the pointer of \<^verbatim>\<open>wrapNvmlInit\<close> set;
  \<^verbatim>\<open>wrapNvmlInit\<close> then calls the native function and returns \<^verbatim>\<open>DALISuccess\<close>.
\<close>

theorem wrapper_before_successful_load_counterexample:
  "wrapSymbols 11000 (stub_library [(''nvmlInit'', 101)] (\<lambda>a. NVML_SUCCESS) 11000)
     initial_state =
     (Throws ''dlsym failed on nvmlShutdown - undefined symbol: nvmlShutdown'',
      init_only_state) \<and>
   symbolsLoaded init_only_state = 0 \<and>
   invoke (stub_library [(''nvmlInit'', 101)] (\<lambda>a. NVML_SUCCESS) 11000) NvmlInit
     init_only_state =
     (Returns DALISuccess,
      init_only_state\<lparr>trace := trace init_only_state @ [NativeCall 101 []]\<rparr>)"
  by (simp add: stub_load_init_only)
     (simp add: init_only_state_def stub_library_def wrapNvmlInit_def FUNC_BODY_def emit_def
        NULL_def)

text \<open>
  C1, amended.  A wrapper whose pointer is \<^verbatim>\<open>NULL\<close> returns \<^verbatim>\<open>DALIError\<close> and leaves the
  state, trace included, as it was: nothing of the environment is called.  In particular
  every wrapper does so before any load attempt and after any calls during which the
  library could not be opened, since all pointers are still null then.
\<close>

theorem wrapper_null_entry_returns_error:
  "(table s (entry w) = NULL \<longrightarrow> invoke e w s = (Returns DALIError, s)) \<and>
   invoke e w initial_state = (Returns DALIError, initial_state) \<and>
   ((\<forall>(e', c) \<in> set cs.
       dlopen e' ''libnvidia-ml.so'' = NULL \<and> dlopen e' ''libnvidia-ml.so.1'' = NULL) \<longrightarrow>
    invoke e w (run v cs initial_state) = (Returns DALIError, run v cs initial_state))"
proof (intro conjI impI)
  show "invoke e w s = (Returns DALIError, s)" if "table s (entry w) = NULL"
    using that by (simp add: invoke_FUNC_BODY FUNC_BODY_def)
  show "invoke e w initial_state = (Returns DALIError, initial_state)"
    by (simp add: invoke_FUNC_BODY FUNC_BODY_def initial_state_def)
  assume "\<forall>(e', c) \<in> set cs.
       dlopen e' ''libnvidia-ml.so'' = NULL \<and> dlopen e' ''libnvidia-ml.so.1'' = NULL"
  from run_library_absent [OF this, of initial_state v]
  have "table (run v cs initial_state) (entry w) = NULL"
    by (simp add: initial_state_def)
  then show "invoke e w (run v cs initial_state) = (Returns DALIError, run v cs initial_state)"
    by (simp add: invoke_FUNC_BODY FUNC_BODY_def)
qed

theorem wrapper_null_entry_returns_error_witness:
  "table without_brand_state (entry (NvmlDeviceGetBrand 7 8)) = NULL \<and>
   invoke (stub_library exports_without_brand (\<lambda>a. NVML_SUCCESS) 10020)
     (NvmlDeviceGetBrand 7 8) without_brand_state =
     (Returns DALIError, without_brand_state) \<and>
   dlopen no_library ''libnvidia-ml.so'' = NULL \<and>
   dlopen no_library ''libnvidia-ml.so.1'' = NULL \<and>
   run 11000 [(no_library, WrapSymbols), (no_library, Wrapper NvmlShutdown)] initial_state =
     initial_state\<lparr>trace := [Dlopen ''libnvidia-ml.so'', Dlopen ''libnvidia-ml.so.1'']\<rparr> \<and>
   invoke (stub_library nvml_exports (\<lambda>a. NVML_SUCCESS) 11000) NvmlInit
     (run 11000 [(no_library, WrapSymbols), (no_library, Wrapper NvmlShutdown)]
        initial_state) =
     (Returns DALIError,
      run 11000 [(no_library, WrapSymbols), (no_library, Wrapper NvmlShutdown)]
        initial_state)"
proof -
  have null: "table without_brand_state (entry (NvmlDeviceGetBrand 7 8)) = NULL"
    by (simp add: without_brand_state_def)
  have absent: "dlopen no_library ''libnvidia-ml.so'' = NULL"
       "dlopen no_library ''libnvidia-ml.so.1'' = NULL"
    by (simp_all add: no_library_def)
  have r: "run 11000 [(no_library, WrapSymbols), (no_library, Wrapper NvmlShutdown)]
             initial_state =
           initial_state\<lparr>trace := [Dlopen ''libnvidia-ml.so'', Dlopen ''libnvidia-ml.so.1'']\<rparr>"
    by (simp add: no_library_load invoke_FUNC_BODY del: invoke.simps)
       (simp add: FUNC_BODY_def initial_state_def)
  from wrapper_null_entry_returns_error
    [of without_brand_state "NvmlDeviceGetBrand 7 8"
        "stub_library exports_without_brand (\<lambda>a. NVML_SUCCESS) 10020" "[]" 11000] null
  have one: "invoke (stub_library exports_without_brand (\<lambda>a. NVML_SUCCESS) 10020)
     (NvmlDeviceGetBrand 7 8) without_brand_state = (Returns DALIError, without_brand_state)"
    by blast
  from wrapper_null_entry_returns_error
    [of initial_state NvmlInit "stub_library nvml_exports (\<lambda>a. NVML_SUCCESS) 11000"
        "[(no_library, WrapSymbols), (no_library, Wrapper NvmlShutdown)]" 11000] absent
  have two: "invoke (stub_library nvml_exports (\<lambda>a. NVML_SUCCESS) 11000) NvmlInit
     (run 11000 [(no_library, WrapSymbols), (no_library, Wrapper NvmlShutdown)]
        initial_state) =
     (Returns DALIError,
      run 11000 [(no_library, WrapSymbols), (no_library, Wrapper NvmlShutdown)]
        initial_state)"
    by simp
  from null one absent r two show ?thesis by blast
qed

text \<open>
  C3.  From a state with the flag set, no sequence of calls (\<^verbatim>\<open>wrapSymbols\<close>, the
  capability query, any wrapper, in any world) changes the table or the flag, and
  \<^verbatim>\<open>wrapSymbols\<close> then returns \<^verbatim>\<open>DALISuccess\<close> with the state, trace included, untouched:
  no \<^verbatim>\<open>dlopen\<close>, no \<^verbatim>\<open>dlsym\<close>.  In particular a call that follows a successful call does
  no second pass.
\<close>

theorem loaded_flag_freezes_table:
  "(symbolsLoaded s \<noteq> 0 \<longrightarrow>
      table (run v cs s) = table s \<and>
      symbolsLoaded (run v cs s) = symbolsLoaded s \<and>
      wrapSymbols v e (run v cs s) = (Returns DALISuccess, run v cs s)) \<and>
   (fst (wrapSymbols v e s) = Returns DALISuccess \<longrightarrow>
      wrapSymbols v e' (snd (wrapSymbols v e s)) =
        (Returns DALISuccess, snd (wrapSymbols v e s)))"
proof (intro conjI impI)
  assume l: "symbolsLoaded s \<noteq> 0"
  from run_loaded [OF l, of v cs]
  show "table (run v cs s) = table s" "symbolsLoaded (run v cs s) = symbolsLoaded s"
    by simp_all
  from run_loaded [OF l, of v cs] l have "symbolsLoaded (run v cs s) \<noteq> 0" by simp
  then show "wrapSymbols v e (run v cs s) = (Returns DALISuccess, run v cs s)"
    by (rule wrapSymbols_loaded)
next
  assume "fst (wrapSymbols v e s) = Returns DALISuccess"
  then have "symbolsLoaded (snd (wrapSymbols v e s)) \<noteq> 0"
    by (simp add: wrapSymbols_flag)
  then show "wrapSymbols v e' (snd (wrapSymbols v e s)) =
        (Returns DALISuccess, snd (wrapSymbols v e s))"
    by (rule wrapSymbols_loaded)
qed

theorem loaded_flag_freezes_table_witness:
  "fst (wrapSymbols 11000 (stub_library nvml_exports (\<lambda>a. 1) 11000) initial_state) =
     Returns DALISuccess \<and>
   symbolsLoaded loaded_stub_state \<noteq> 0 \<and>
   wrapSymbols 11000 no_library loaded_stub_state = (Returns DALISuccess, loaded_stub_state) \<and>
   table (run 11000
            [(stub_library [] (\<lambda>a. 1) 11000, Wrapper NvmlInit), (no_library, WrapSymbols)]
            loaded_stub_state) = table loaded_stub_state"
  using loaded_flag_freezes_table
    [of loaded_stub_state 11000
        "[(stub_library [] (\<lambda>a. 1) 11000, Wrapper NvmlInit), (no_library, WrapSymbols)]"
        no_library]
    loaded_flag_freezes_table
    [of initial_state 11000 "[]" "stub_library nvml_exports (\<lambda>a. 1) 11000" no_library]
  by (simp add: stub_load_all) (simp add: loaded_stub_state_def)

text \<open>
  C7.  In every state a client can reach from the initial one, the capability query is true
  exactly when all five CUDA 11 pointers are non-null, and exactly when the four it reads
  are.  The function reads the count, handle-by-index, compute-capability and brand
  pointers; the scoped-affinity pointer is assigned before any of them in every pass and
  never reset, so it is non-null whenever the brand pointer is.  In a build below CUDA 11
  the query is constantly false and the five pointers stay null.  In a CUDA 11 build the
  query is the conjunction of the four pointers in any state whatever.
\<close>

theorem capability_query_iff_group_resolved:
  "wrapHasCuda11NvmlFunctions v (run v cs initial_state) =
     (\<forall>fp \<in> snd ` set cuda11_symbols. table (run v cs initial_state) fp \<noteq> NULL) \<and>
   wrapHasCuda11NvmlFunctions v (run v cs initial_state) =
     (\<forall>fp \<in> {nvmlInternalDeviceGetCount_v2, nvmlInternalDeviceGetHandleByIndex_v2,
              nvmlInternalDeviceGetCudaComputeCapability, nvmlInternalDeviceGetBrand}.
        table (run v cs initial_state) fp \<noteq> NULL) \<and>
   (11000 \<le> v \<longrightarrow>
      wrapHasCuda11NvmlFunctions v s =
        (\<forall>fp \<in> {nvmlInternalDeviceGetCount_v2, nvmlInternalDeviceGetHandleByIndex_v2,
                 nvmlInternalDeviceGetCudaComputeCapability, nvmlInternalDeviceGetBrand}.
           table s fp \<noteq> NULL))"
proof (intro conjI)
  let ?s = "run v cs initial_state"
  have inv: "loader_invariant v ?s"
    by (rule loader_invariant_run) (rule loader_invariant_initial)
  show "wrapHasCuda11NvmlFunctions v ?s =
     (\<forall>fp \<in> snd ` set cuda11_symbols. table ?s fp \<noteq> NULL)"
  proof (cases "11000 \<le> v")
    case True
    from inv have "table ?s nvmlInternalDeviceGetBrand \<noteq> NULL \<longrightarrow>
        table ?s nvmlInternalDeviceGetCpuAffinityWithinScope \<noteq> NULL"
      by (simp add: loader_invariant_def)
    with True show ?thesis
      by (auto simp: wrapHasCuda11NvmlFunctions_def cuda11_symbols_def)
  next
    case False
    with inv have "\<forall>fp \<in> snd ` set cuda11_symbols. table ?s fp = NULL"
      by (simp add: loader_invariant_def)
    then have "table ?s nvmlInternalDeviceGetBrand = NULL"
      by (simp add: cuda11_symbols_def)
    with False show ?thesis
      by (auto simp: wrapHasCuda11NvmlFunctions_def cuda11_symbols_def)
  qed
  show "wrapHasCuda11NvmlFunctions v ?s =
     (\<forall>fp \<in> {nvmlInternalDeviceGetCount_v2, nvmlInternalDeviceGetHandleByIndex_v2,
              nvmlInternalDeviceGetCudaComputeCapability, nvmlInternalDeviceGetBrand}.
        table ?s fp \<noteq> NULL)"
  proof (cases "11000 \<le> v")
    case True
    then show ?thesis by (simp add: wrapHasCuda11NvmlFunctions_def)
  next
    case False
    with inv have "\<forall>fp \<in> snd ` set cuda11_symbols. table ?s fp = NULL"
      by (simp add: loader_invariant_def)
    then have "table ?s nvmlInternalDeviceGetBrand = NULL"
      by (simp add: cuda11_symbols_def)
    with False show ?thesis
      by (simp add: wrapHasCuda11NvmlFunctions_def)
  qed
  show "11000 \<le> v \<longrightarrow>
      wrapHasCuda11NvmlFunctions v s =
        (\<forall>fp \<in> {nvmlInternalDeviceGetCount_v2, nvmlInternalDeviceGetHandleByIndex_v2,
                 nvmlInternalDeviceGetCudaComputeCapability, nvmlInternalDeviceGetBrand}.
           table s fp \<noteq> NULL)"
    by (simp add: wrapHasCuda11NvmlFunctions_def)
qed

theorem capability_query_iff_group_resolved_witness:
  "wrapHasCuda11NvmlFunctions 11000
     (run 11000 [(stub_library nvml_exports (\<lambda>a. NVML_SUCCESS) 11000, WrapSymbols)]
        initial_state) \<and>
   table (run 11000 [(stub_library nvml_exports (\<lambda>a. NVML_SUCCESS) 11000, WrapSymbols)]
            initial_state) nvmlInternalDeviceGetCpuAffinityWithinScope = 111 \<and>
   table (run 11000 [(stub_library nvml_exports (\<lambda>a. NVML_SUCCESS) 11000, WrapSymbols)]
            initial_state) nvmlInternalDeviceGetBrand = 112 \<and>
   table (run 11000 [(stub_library nvml_exports (\<lambda>a. NVML_SUCCESS) 11000, WrapSymbols)]
            initial_state) nvmlInternalDeviceGetCount_v2 = 113 \<and>
   table (run 11000 [(stub_library nvml_exports (\<lambda>a. NVML_SUCCESS) 11000, WrapSymbols)]
            initial_state) nvmlInternalDeviceGetHandleByIndex_v2 = 114 \<and>
   table (run 11000 [(stub_library nvml_exports (\<lambda>a. NVML_SUCCESS) 11000, WrapSymbols)]
            initial_state) nvmlInternalDeviceGetCudaComputeCapability = 115 \<and>
   NULL = (0::nat)"
  using capability_query_iff_group_resolved
    [of 11000 "[(stub_library nvml_exports (\<lambda>a. NVML_SUCCESS) 11000, WrapSymbols)]"
        loaded_stub_state]
  by (simp add: stub_load_all)
     (simp add: loaded_stub_state_def NULL_def cuda11_symbols_def)

text \<open>
  C8, as stated, fails: \<^verbatim>\<open>FUNC_BODY\<close> has no fallback string.  After a pass that resolved
  \<^verbatim>\<open>nvmlInit\<close> and then threw, the error-to-string pointer is still null; when the native
  \<^verbatim>\<open>nvmlInit\<close> then fails, \<^verbatim>\<open>wrapNvmlInit\<close> calls through the null pointer and no warning
  is produced.
\<close>

theorem null_error_string_counterexample:
  "snd (wrapSymbols 11000 (stub_library [(''nvmlInit'', 101)] (\<lambda>a. 1) 11000) initial_state) =
     init_only_state \<and>
   table init_only_state nvmlInternalInit \<noteq> NULL \<and>
   table init_only_state nvmlInternalErrorString = NULL \<and>
   native (stub_library [(''nvmlInit'', 101)] (\<lambda>a. 1) 11000)
     (table init_only_state nvmlInternalInit) [] \<noteq> NVML_SUCCESS \<and>
   wrapNvmlInit (stub_library [(''nvmlInit'', 101)] (\<lambda>a. 1) 11000) init_only_state =
     (Crash, init_only_state\<lparr>trace := trace init_only_state @ [NativeCall 101 []]\<rparr>)"
  by (simp add: stub_load_init_only)
     (simp add: init_only_state_def stub_library_def wrapNvmlInit_def FUNC_BODY_def emit_def
        NULL_def NVML_SUCCESS_def)

text \<open>
  C8, amended.  In every reachable state with the flag set the error-to-string pointer is
  non-null, so no wrapper calls through a null pointer there, and a failing native call
  gives \<^verbatim>\<open>DALIError\<close> with the warning built from the library's own string for the code.
\<close>

theorem loaded_error_string_resolved:
  "symbolsLoaded (run v cs initial_state) \<noteq> 0 \<Longrightarrow>
   table (run v cs initial_state) nvmlInternalErrorString \<noteq> NULL \<and>
   fst (invoke e w (run v cs initial_state)) \<noteq> Crash \<and>
   (table (run v cs initial_state) (entry w) \<noteq> NULL \<and>
    native e (table (run v cs initial_state) (entry w)) (arguments w) \<noteq> NVML_SUCCESS \<longrightarrow>
      fst (invoke e w (run v cs initial_state)) = Returns DALIError \<and>
      last (trace (snd (invoke e w (run v cs initial_state)))) =
        Warn (stringify (entry w) @ ''(...) failed: '' @
              errstring e (table (run v cs initial_state) nvmlInternalErrorString)
                (native e (table (run v cs initial_state) (entry w)) (arguments w))))"
proof -
  let ?s = "run v cs initial_state"
  assume l: "symbolsLoaded ?s \<noteq> 0"
  have "loader_invariant v ?s"
    by (rule loader_invariant_run) (rule loader_invariant_initial)
  with l have "\<forall>fp \<in> snd ` set (symbols_to_load v). table ?s fp \<noteq> NULL"
    by (simp add: loader_invariant_def)
  moreover have "nvmlInternalErrorString \<in> snd ` set (symbols_to_load v)"
    by (simp add: symbols_to_load_def base_symbols_def)
  ultimately have es: "table ?s nvmlInternalErrorString \<noteq> NULL" by blast
  then show ?thesis
    by (simp add: invoke_FUNC_BODY FUNC_BODY_def Let_def)
qed

theorem loaded_error_string_resolved_witness:
  "symbolsLoaded
     (run 11000 [(stub_library nvml_exports (\<lambda>a. 1) 11000, WrapSymbols)] initial_state) \<noteq> 0 \<and>
   table loaded_stub_state (entry NvmlInit) \<noteq> NULL \<and>
   native (stub_library nvml_exports (\<lambda>a. 1) 11000)
     (table loaded_stub_state (entry NvmlInit)) (arguments NvmlInit) \<noteq> NVML_SUCCESS \<and>
   table loaded_stub_state nvmlInternalErrorString = 110 \<and> (110::nat) \<noteq> NULL \<and>
   fst (invoke (stub_library nvml_exports (\<lambda>a. 1) 11000) NvmlInit loaded_stub_state) =
     Returns DALIError \<and>
   last (trace (snd (invoke (stub_library nvml_exports (\<lambda>a. 1) 11000) NvmlInit
                       loaded_stub_state))) =
     Warn ''nvmlInternalInit(...) failed: Uninitialized''"
  using loaded_error_string_resolved
    [of 11000 "[(stub_library nvml_exports (\<lambda>a. 1) 11000, WrapSymbols)]"
        "stub_library nvml_exports (\<lambda>a. 1) 11000" NvmlInit]
  by (simp add: stub_load_all)
     (simp add: loaded_stub_state_def stub_library_def NULL_def NVML_SUCCESS_def)

subsection \<open>First calls from several threads\<close>

lemma wrapSymbols_as_test_and_pass:
  "wrapSymbols v e s =
     (if symbolsLoaded s \<noteq> 0 then (Returns DALISuccess, s) else wrapSymbols_pass v e s)"
  by (simp add: wrapSymbols_def wrapSymbols_pass_def)

lemma wrapSymbols_pass_unfold:
  "wrapSymbols_pass v e s =
     (if dlopen e ''libnvidia-ml.so'' \<noteq> NULL then
        resolve_all v e
          ((emit (Dlopen ''libnvidia-ml.so'') s)\<lparr>nvmlhandle := dlopen e ''libnvidia-ml.so''\<rparr>)
      else if dlopen e ''libnvidia-ml.so.1'' \<noteq> NULL then
        resolve_all v e
          ((emit (Dlopen ''libnvidia-ml.so.1'') (emit (Dlopen ''libnvidia-ml.so'') s))
             \<lparr>nvmlhandle := dlopen e ''libnvidia-ml.so.1''\<rparr>)
      else
        (Throws ''Failed to open libnvidia-ml.so[.1]'',
         (emit (Dlopen ''libnvidia-ml.so.1'') (emit (Dlopen ''libnvidia-ml.so'') s))
            \<lparr>nvmlhandle := NULL\<rparr>))"
  by (simp add: wrapSymbols_pass_def Let_def emit_def)

lemma passes_resolve_all: "passes (snd (resolve_all v e s)) = passes s"
proof -
  from resolve_all_trace [of v e s] obtain evs where
    "trace (snd (resolve_all v e s)) = trace s @ evs" "\<forall>n. Dlopen n \<notin> set evs"
    by blast
  then show ?thesis by (simp add: passes_def)
qed

lemma passes_wrapSymbols_pass: "passes (snd (wrapSymbols_pass v e s)) = Suc (passes s)"
  by (simp add: wrapSymbols_pass_unfold passes_resolve_all) (simp add: passes_def)

text \<open>
  C10, as stated, fails: nothing makes the flag test and the pass one step.  Two threads
  call \<^verbatim>\<open>wrapSymbols\<close> first; both test the flag before either has set it, so both run a
  resolution pass, the second one after the first has set the flag.  Two passes run where
  the claim says exactly one.
\<close>

theorem concurrent_first_calls_counterexample:
  "fst (interleave 11000
          [(0, stub_library nvml_exports (\<lambda>a. NVML_SUCCESS) 11000),
           (1, stub_library nvml_exports (\<lambda>a. NVML_SUCCESS) 11000),
           (0, stub_library nvml_exports (\<lambda>a. NVML_SUCCESS) 11000),
           (1, stub_library nvml_exports (\<lambda>a. NVML_SUCCESS) 11000)]
          ([AtTest, AtTest], initial_state)) =
     [Done (Returns DALISuccess), Done (Returns DALISuccess)] \<and>
   passes initial_state = 0 \<and>
   passes (snd (interleave 11000
          [(0, stub_library nvml_exports (\<lambda>a. NVML_SUCCESS) 11000),
           (1, stub_library nvml_exports (\<lambda>a. NVML_SUCCESS) 11000),
           (0, stub_library nvml_exports (\<lambda>a. NVML_SUCCESS) 11000),
           (1, stub_library nvml_exports (\<lambda>a. NVML_SUCCESS) 11000)]
          ([AtTest, AtTest], initial_state))) = 2"
proof -
  let ?E = "stub_library nvml_exports (\<lambda>a. NVML_SUCCESS) 11000"
  have first: "wrapSymbols_pass 11000 ?E initial_state = (Returns DALISuccess, loaded_stub_state)"
    using stub_load_all [of "\<lambda>a. NVML_SUCCESS" 11000]
    by (simp add: wrapSymbols_as_test_and_pass initial_state_def)
  have second: "fst (wrapSymbols_pass 11000 ?E loaded_stub_state) = Returns DALISuccess"
    by (simp add: wrapSymbols_pass_def resolve_all_def symbols_to_load_def base_symbols_def
          cuda11_symbols_def LOAD_SYM_def emit_def NULL_def stub_unfold loaded_stub_state_def)
  have count: "passes (snd (wrapSymbols_pass 11000 ?E loaded_stub_state)) = 2"
    using passes_wrapSymbols_pass [of 11000 ?E initial_state]
      passes_wrapSymbols_pass [of 11000 ?E loaded_stub_state]
    by (simp add: first) (simp add: passes_def initial_state_def)
  have zero: "passes initial_state = 0"
    by (simp add: passes_def initial_state_def)
  have sched: "interleave 11000 [(0, ?E), (1, ?E), (0, ?E), (1, ?E)]
        ([AtTest, AtTest], initial_state) =
      ([Done (Returns DALISuccess), Done (fst (wrapSymbols_pass 11000 ?E loaded_stub_state))],
       snd (wrapSymbols_pass 11000 ?E loaded_stub_state))"
    by (simp add: first split: prod.splits) (simp add: initial_state_def)
  from sched second count zero show ?thesis by simp
qed

text \<open>
  C10, amended.  When a thread runs its flag test and its pass with no step of another
  thread in between, the two steps are one call of \<^verbatim>\<open>wrapSymbols\<close>, so calls that do not
  overlap behave as calls in sequence.  A thread that finds the flag set is done with
  \<^verbatim>\<open>DALISuccess\<close> and touches nothing.  A thread that finds the flag clear goes on to the
  pass, and its pass runs whatever the flag has become by then: each such thread adds one
  resolution pass.
\<close>

theorem unsynchronised_first_calls:
  "(i < length pcs \<and> pcs ! i = AtTest \<longrightarrow>
      interleave v [(i, e), (i, e)] (pcs, s) =
        (pcs[i := Done (fst (wrapSymbols v e s))], snd (wrapSymbols v e s))) \<and>
   (symbolsLoaded s \<noteq> 0 \<longrightarrow> thread_step v e AtTest s = (Done (Returns DALISuccess), s)) \<and>
   (symbolsLoaded s = 0 \<longrightarrow> thread_step v e AtTest s = (InPass, s)) \<and>
   passes (snd (thread_step v e InPass s)) = Suc (passes s)"
proof (intro conjI impI)
  assume "i < length pcs \<and> pcs ! i = AtTest"
  then show "interleave v [(i, e), (i, e)] (pcs, s) =
        (pcs[i := Done (fst (wrapSymbols v e s))], snd (wrapSymbols v e s))"
    by (cases "wrapSymbols_pass v e s") (simp add: wrapSymbols_as_test_and_pass)
next
  show "thread_step v e AtTest s = (Done (Returns DALISuccess), s)" if "symbolsLoaded s \<noteq> 0"
    using that by simp
  show "thread_step v e AtTest s = (InPass, s)" if "symbolsLoaded s = 0"
    using that by simp
  show "passes (snd (thread_step v e InPass s)) = Suc (passes s)"
    using passes_wrapSymbols_pass [of v e s]
    by (cases "wrapSymbols_pass v e s") simp
qed

theorem unsynchronised_first_calls_witness:
  "(0::nat) < length [AtTest, AtTest] \<and> [AtTest, AtTest] ! 0 = AtTest \<and>
   interleave 11000
     [(0, stub_library nvml_exports (\<lambda>a. NVML_SUCCESS) 11000),
      (0, stub_library nvml_exports (\<lambda>a. NVML_SUCCESS) 11000)]
     ([AtTest, AtTest], initial_state) =
     ([Done (Returns DALISuccess), AtTest], loaded_stub_state) \<and>
   symbolsLoaded loaded_stub_state = 1 \<and>
   thread_step 11000 no_library AtTest loaded_stub_state =
     (Done (Returns DALISuccess), loaded_stub_state) \<and>
   symbolsLoaded initial_state = 0 \<and>
   thread_step 11000 no_library AtTest initial_state = (InPass, initial_state)"
  using unsynchronised_first_calls
    [of 0 "[AtTest, AtTest]" 11000 "stub_library nvml_exports (\<lambda>a. NVML_SUCCESS) 11000"
        initial_state]
    unsynchronised_first_calls [of 0 "[AtTest, AtTest]" 11000 no_library loaded_stub_state]
    unsynchronised_first_calls [of 0 "[AtTest, AtTest]" 11000 no_library initial_state]
  by (simp add: stub_load_all del: interleave.simps thread_step.simps)
     (simp add: loaded_stub_state_def initial_state_def)

subsection \<open>The driver-version gate\<close>

lemma LOAD_SYM_MIN_DRIVER_insufficient:
  "cudaDriverGetVersion e = (0, driver_version) \<Longrightarrow>
   driver_version < 1000 * cuda_M + 10 * cuda_m \<Longrightarrow>
   LOAD_SYM_MIN_DRIVER e handle symbol fp cuda_M cuda_m s =
     (Returns (), (emit DriverGetVersion s)\<lparr>table := (table s)(fp := NULL)\<rparr>)"
  by (simp add: LOAD_SYM_MIN_DRIVER_def is_driver_sufficient_def)

text \<open>
  C5, evaluated on the code: a CUDA 11 build, a driver that reports 10.2 and the library of
  an older driver.  The predicate of lines 60--64 is false for (11, 0), and
  \<^verbatim>\<open>LOAD_SYM_MIN_DRIVER\<close> at \<^verbatim>\<open>nvmlDeviceGetBrand\<close> asks for the version, stores a null
  pointer and returns.  \<^verbatim>\<open>wrapSymbols\<close> expands \<^verbatim>\<open>LOAD_SYM\<close> instead: it never asks for the
  driver version and throws at \<^verbatim>\<open>nvmlDeviceGetBrand\<close>.
\<close>

theorem cuda11_symbols_loaded_ungated:
  "is_driver_sufficient (stub_library older_exports (\<lambda>a. NVML_SUCCESS) 10020) 11 0
     initial_state =
     (Returns False, initial_state\<lparr>trace := [DriverGetVersion]\<rparr>) \<and>
   LOAD_SYM_MIN_DRIVER (stub_library older_exports (\<lambda>a. NVML_SUCCESS) 10020) 1
     ''nvmlDeviceGetBrand'' nvmlInternalDeviceGetBrand 11 0 initial_state =
     (Returns (), initial_state\<lparr>trace := [DriverGetVersion]\<rparr>) \<and>
   wrapSymbols 11000 (stub_library older_exports (\<lambda>a. NVML_SUCCESS) 10020) initial_state =
     (Throws ''dlsym failed on nvmlDeviceGetBrand - undefined symbol: nvmlDeviceGetBrand'',
      without_brand_state) \<and>
   DriverGetVersion \<notin> set (trace without_brand_state) \<and>
   symbolsLoaded without_brand_state = 0"
proof (intro conjI)
  show "is_driver_sufficient (stub_library older_exports (\<lambda>a. NVML_SUCCESS) 10020) 11 0
     initial_state =
     (Returns False, initial_state\<lparr>trace := [DriverGetVersion]\<rparr>)"
    by (simp add: is_driver_sufficient_def stub_library_def emit_def initial_state_def)
  show "LOAD_SYM_MIN_DRIVER (stub_library older_exports (\<lambda>a. NVML_SUCCESS) 10020) 1
     ''nvmlDeviceGetBrand'' nvmlInternalDeviceGetBrand 11 0 initial_state =
     (Returns (), initial_state\<lparr>trace := [DriverGetVersion]\<rparr>)"
    by (simp add: LOAD_SYM_MIN_DRIVER_def is_driver_sufficient_def stub_library_def emit_def
          initial_state_def fun_upd_idem)
  show "wrapSymbols 11000 (stub_library older_exports (\<lambda>a. NVML_SUCCESS) 10020)
     initial_state =
     (Throws ''dlsym failed on nvmlDeviceGetBrand - undefined symbol: nvmlDeviceGetBrand'',
      without_brand_state)"
    by (simp add: loader_unfold stub_unfold older_exports_def without_brand_state_def)
  show "DriverGetVersion \<notin> set (trace without_brand_state)"
    by (simp add: without_brand_state_def base_symbols_def)
  show "symbolsLoaded without_brand_state = 0"
    by (simp add: without_brand_state_def)
qed

text \<open>
  C6, evaluated on the code: the stub library that exports everything but
  \<^verbatim>\<open>nvmlDeviceGetBrand\<close>, with \<^verbatim>\<open>nvmlInit\<close> returning \<^verbatim>\<open>NVML_SUCCESS\<close>.  In a CUDA 11 build
  \<^verbatim>\<open>wrapSymbols\<close> throws at that symbol and the flag stays clear; in the state it leaves,
  the capability query is false, \<^verbatim>\<open>wrapNvmlInit\<close> returns \<^verbatim>\<open>DALISuccess\<close> and
  \<^verbatim>\<open>wrapNvmlDeviceGetBrand\<close> returns \<^verbatim>\<open>DALIError\<close> without a native call.  A build below
  CUDA 11 loads the same library successfully.
\<close>

theorem stub_without_brand_fails_to_load:
  "wrapSymbols 11000 (stub_library exports_without_brand (\<lambda>a. NVML_SUCCESS) 10020)
     initial_state =
     (Throws ''dlsym failed on nvmlDeviceGetBrand - undefined symbol: nvmlDeviceGetBrand'',
      without_brand_state) \<and>
   symbolsLoaded without_brand_state = 0 \<and>
   \<not> wrapHasCuda11NvmlFunctions 11000 without_brand_state \<and>
   wrapNvmlInit (stub_library exports_without_brand (\<lambda>a. NVML_SUCCESS) 10020)
     without_brand_state =
     (Returns DALISuccess,
      without_brand_state\<lparr>trace := trace without_brand_state @ [NativeCall 101 []]\<rparr>) \<and>
   wrapNvmlDeviceGetBrand (stub_library exports_without_brand (\<lambda>a. NVML_SUCCESS) 10020)
     7 8 without_brand_state = (Returns DALIError, without_brand_state) \<and>
   fst (wrapSymbols 10020 (stub_library exports_without_brand (\<lambda>a. NVML_SUCCESS) 10020)
          initial_state) = Returns DALISuccess"
proof (intro conjI)
  show "wrapSymbols 11000 (stub_library exports_without_brand (\<lambda>a. NVML_SUCCESS) 10020)
     initial_state =
     (Throws ''dlsym failed on nvmlDeviceGetBrand - undefined symbol: nvmlDeviceGetBrand'',
      without_brand_state)"
    by (simp add: loader_unfold stub_unfold exports_without_brand_def without_brand_state_def)
  show "symbolsLoaded without_brand_state = 0"
    by (simp add: without_brand_state_def)
  show "\<not> wrapHasCuda11NvmlFunctions 11000 without_brand_state"
    by (simp add: wrapHasCuda11NvmlFunctions_def without_brand_state_def)
  show "wrapNvmlInit (stub_library exports_without_brand (\<lambda>a. NVML_SUCCESS) 10020)
     without_brand_state =
     (Returns DALISuccess,
      without_brand_state\<lparr>trace := trace without_brand_state @ [NativeCall 101 []]\<rparr>)"
    by (simp add: wrapNvmlInit_def FUNC_BODY_def emit_def stub_library_def
          without_brand_state_def NULL_def)
  show "wrapNvmlDeviceGetBrand (stub_library exports_without_brand (\<lambda>a. NVML_SUCCESS) 10020)
     7 8 without_brand_state = (Returns DALIError, without_brand_state)"
    by (simp add: wrapNvmlDeviceGetBrand_def FUNC_BODY_def without_brand_state_def)
  show "fst (wrapSymbols 10020 (stub_library exports_without_brand (\<lambda>a. NVML_SUCCESS) 10020)
          initial_state) = Returns DALISuccess"
    by (simp add: loader_unfold stub_unfold exports_without_brand_def)
qed

end
